theory Spec2Isabelle
  imports Main
begin

section \<open>The notebook \<open>veo3-character-consistency/workflow.ipynb\<close>\<close>

text \<open>
  The notebook is a sequence of code cells run top to bottom. Each cell reads and binds
  variables of the kernel namespace, consults the file system through \<open>os\<close>, calls the two
  workflow functions imported from the modules \<open>image_generator\<close> and \<open>video_generator\<close>,
  and prints, logs and displays. A cell is modelled as a function from the namespace to the
  events it issues (in order), the namespace it leaves behind, and the exception it raised,
  if any.
\<close>

subsection \<open>Exceptions, events, the environment\<close>

datatype exn =
    ValueError string
  | NameError string
  | OSError string
  | Exception string

datatype event =
    IsDir string
  | ListDir string
  | IsFile string
  | Exists string
  | Print string
  | LogInfo string
  | CallGenerateImages "string list" string
  | CallGenerateVideo string string
  | DisplayImage string nat
  | DisplayVideo string nat

text \<open>
  What the notebook does not define itself is a parameter: \<open>config.INPUT_DIR\<close>, the answers of
  the file system (\<open>os.path.isdir\<close>, \<open>os.path.isfile\<close> and \<open>os.path.exists\<close> never raise;
  \<open>os.listdir\<close> raises \<open>OSError\<close>, here \<open>None\<close>, when the directory cannot be read), the two
  imported workflow functions (either may raise), and IPython's \<open>Image\<close> and \<open>Video\<close>
  constructors, which read the file they are given and so may raise.

  Python hands \<open>generate_images_and_select_best\<close> the list object that \<open>image_files\<close> names,
  not a copy, so what the imported code does to that object is part of the environment too:
  \<open>list_after_generate_images files scen\<close> is the content of the list object when the call
  returns or raises, and \<open>list_after_generate_video pp outp files\<close> its content when the
  later call of \<open>generate_video_from_best_image\<close> returns or raises (the imported modules
  may have kept the reference). The imported functions also write files: the two
  \<open>disk_after\<close> functions give the bytes on disk, by path, after a call.
\<close>

type_synonym disk = "string \<Rightarrow> string option"

record env =
  INPUT_DIR :: string
  os_path_isdir :: "string \<Rightarrow> bool"
  os_listdir :: "string \<Rightarrow> string list option"
  os_path_isfile :: "string \<Rightarrow> bool"
  os_path_exists :: "string \<Rightarrow> bool"
  generate_images_and_select_best ::
    "string list \<Rightarrow> string \<Rightarrow> exn + (string \<times> string \<times> string list)"
  generate_video_from_best_image :: "string \<Rightarrow> string \<Rightarrow> exn + string option"
  display_Image :: "string \<Rightarrow> nat \<Rightarrow> exn option"
  display_Video :: "string \<Rightarrow> nat \<Rightarrow> exn option"
  list_after_generate_images :: "string list \<Rightarrow> string \<Rightarrow> string list"
  list_after_generate_video :: "string \<Rightarrow> string \<Rightarrow> string list \<Rightarrow> string list"
  disk_after_generate_images :: "string list \<Rightarrow> string \<Rightarrow> disk \<Rightarrow> disk"
  disk_after_generate_video :: "string \<Rightarrow> string \<Rightarrow> disk \<Rightarrow> disk"

text \<open>
  The variables of the kernel namespace that the cells bind; \<open>None\<close> is unbound. The value
  of \<open>image_files\<close> is the current content of the list object the variable names.
\<close>

record namespace =
  IMAGE_LOCATION :: "string option"
  SCENARIO :: "string option"
  image_files :: "string list option"
  person_path :: "string option"
  outpainted_image_path :: "string option"
  candidate_image_paths :: "string list option"
  video_path :: "string option option"

definition fresh_kernel :: namespace where
  "fresh_kernel =
     \<lparr>IMAGE_LOCATION = None, SCENARIO = None, image_files = None, person_path = None,
      outpainted_image_path = None, candidate_image_paths = None, video_path = None\<rparr>"

type_synonym cell = "env \<Rightarrow> namespace \<Rightarrow> event list \<times> namespace \<times> exn option"

subsection \<open>Library functions the cells use\<close>

text \<open>\<open>os.path.join\<close> on two \<open>str\<close> arguments, as \<open>posixpath\<close> computes it.\<close>

definition os_path_join :: "string \<Rightarrow> string \<Rightarrow> string" where
  "os_path_join a b =
     (if take 1 b = ''/'' then b
      else if a = [] \<or> last a = CHR ''/'' then a @ b
      else a @ ''/'' @ b)"

text \<open>\<open>str\<close> of a non-negative \<open>int\<close>: its decimal digits.\<close>

fun str_nat :: "nat \<Rightarrow> string" where
  "str_nat n =
     (if n < 10 then [char_of (48 + n)]
      else str_nat (n div 10) @ [char_of (48 + n mod 10)])"

declare str_nat.simps [simp del]

definition str_opt :: "string option \<Rightarrow> string" where
  "str_opt v = (case v of None \<Rightarrow> ''None'' | Some s \<Rightarrow> s)"

subsection \<open>Cell 2: configuration and input validation\<close>

definition the_scenario :: string where
  "the_scenario = ''a man wearing a spiderman outfit in the desert''"

definition list_regular_files :: "env \<Rightarrow> string \<Rightarrow> string list \<Rightarrow> string list" where
  "list_regular_files e loc names =
     [os_path_join loc f. f \<leftarrow> names, os_path_isfile e (os_path_join loc f)]"

text \<open>The two \<open>ValueError\<close>s the cell raises, with their messages.\<close>

definition not_a_valid_directory :: "string \<Rightarrow> exn" where
  "not_a_valid_directory loc =
     ValueError (''The provided image location is not a valid directory: '' @ loc)"

definition no_image_files_found :: "string \<Rightarrow> exn" where
  "no_image_files_found loc = ValueError (''No image files found in the directory: '' @ loc)"

definition validate_inputs :: cell where
  "validate_inputs e s0 =
     (let loc = INPUT_DIR e;
          s1 = s0\<lparr>IMAGE_LOCATION := Some loc, SCENARIO := Some the_scenario\<rparr>
      in if \<not> os_path_isdir e loc
         then ([IsDir loc], s1, Some (not_a_valid_directory loc))
         else (case os_listdir e loc of
                 None \<Rightarrow> ([IsDir loc, ListDir loc], s1, Some (OSError loc))
               | Some names \<Rightarrow>
                   (let files = list_regular_files e loc names;
                        s2 = s1\<lparr>image_files := Some files\<rparr>;
                        tr = [IsDir loc, ListDir loc]
                               @ map (\<lambda>f. IsFile (os_path_join loc f)) names
                    in if files = []
                       then (tr, s2, Some (no_image_files_found loc))
                       else (tr @ [Print (''Found '' @ str_nat (length files)
                                            @ '' reference images in '' @ [CHR 0x27] @ loc
                                            @ [CHR 0x27] @ ''.'')],
                             s2, None))))"

subsection \<open>Cell 3: generate and select the best image\<close>

definition generate_and_select :: cell where
  "generate_and_select e s =
     (let tr0 = [LogInfo ''Step 1: Generating images and selecting the best candidate...'']
      in case image_files s of
           None \<Rightarrow> (tr0, s, Some (NameError ''image_files''))
         | Some files \<Rightarrow>
             (case SCENARIO s of
                None \<Rightarrow> (tr0, s, Some (NameError ''SCENARIO''))
              | Some scen \<Rightarrow>
                  (let s1 = s\<lparr>image_files := Some (list_after_generate_images e files scen)\<rparr>
                   in case generate_images_and_select_best e files scen of
                        Inl x \<Rightarrow> (tr0 @ [CallGenerateImages files scen], s1, Some x)
                      | Inr (pp, outp, cands) \<Rightarrow>
                          (tr0 @ [CallGenerateImages files scen,
                                  LogInfo (''Best image selected and outpainted to: '' @ outp),
                                  LogInfo (''Generated assets stored in: '' @ pp)],
                           s1\<lparr>person_path := Some pp, outpainted_image_path := Some outp,
                              candidate_image_paths := Some cands\<rparr>,
                           None))))"

subsection \<open>Cells 4 and 5: display the candidates and the outpainted image\<close>

fun display_each :: "env \<Rightarrow> string list \<Rightarrow> event list \<times> exn option" where
  "display_each e [] = ([], None)"
| "display_each e (p # ps) =
     (case display_Image e p 256 of
        Some x \<Rightarrow> ([DisplayImage p 256], Some x)
      | None \<Rightarrow> (case display_each e ps of (tr, r) \<Rightarrow> (DisplayImage p 256 # tr, r)))"

definition display_candidates :: cell where
  "display_candidates e s =
     (case candidate_image_paths s of
        None \<Rightarrow> ([], s, Some (NameError ''candidate_image_paths''))
      | Some paths \<Rightarrow> (case display_each e paths of (tr, r) \<Rightarrow> (tr, s, r)))"

definition display_outpainted :: cell where
  "display_outpainted e s =
     (case outpainted_image_path s of
        None \<Rightarrow> ([], s, Some (NameError ''outpainted_image_path''))
      | Some p \<Rightarrow> ([DisplayImage p 600], s, display_Image e p 600))"

subsection \<open>Cell 6: generate the video\<close>

definition generate_video :: cell where
  "generate_video e s =
     (let tr0 = [LogInfo ''Step 2: Generating video from the best image...'']
      in case person_path s of
           None \<Rightarrow> (tr0, s, Some (NameError ''person_path''))
         | Some pp \<Rightarrow>
             (case outpainted_image_path s of
                None \<Rightarrow> (tr0, s, Some (NameError ''outpainted_image_path''))
              | Some outp \<Rightarrow>
                  (let s1 = s\<lparr>image_files :=
                                 map_option (list_after_generate_video e pp outp) (image_files s)\<rparr>
                   in case generate_video_from_best_image e pp outp of
                        Inl x \<Rightarrow> (tr0 @ [CallGenerateVideo pp outp], s1, Some x)
                      | Inr v \<Rightarrow>
                          (tr0 @ [CallGenerateVideo pp outp,
                                  LogInfo (''Successfully generated video: '' @ str_opt v)],
                           s1\<lparr>video_path := Some v\<rparr>, None))))"

subsection \<open>Cell 7: display the final video\<close>

definition could_not_display :: event where
  "could_not_display = Print (CHR 0x0A # ''Could not display the final video.'')"

definition display_final_video :: cell where
  "display_final_video e s =
     (case video_path s of
        None \<Rightarrow> ([], s, Some (NameError ''video_path''))
      | Some None \<Rightarrow> ([could_not_display], s, None)
      | Some (Some p) \<Rightarrow>
          (if p = [] then ([could_not_display], s, None)
           else if os_path_exists e p
           then ([Exists p, Print (CHR 0x0A # ''Final Generated Video:''), DisplayVideo p 600],
                 s, display_Video e p 600)
           else ([Exists p, could_not_display], s, None)))"

subsection \<open>Running the notebook from a fresh kernel\<close>

text \<open>
  Cell 1 only imports modules and configures logging. The cells run in order; a cell that
  raises stops the run, and the cells after it are not executed.
\<close>

fun run_cells :: "env \<Rightarrow> cell list \<Rightarrow> namespace \<Rightarrow> event list \<times> namespace \<times> exn option" where
  "run_cells e [] s = ([], s, None)"
| "run_cells e (c # cs) s =
     (case c e s of
        (tr, s', Some x) \<Rightarrow> (tr, s', Some x)
      | (tr, s', None) \<Rightarrow> (case run_cells e cs s' of (tr', r) \<Rightarrow> (tr @ tr', r)))"

definition notebook :: "cell list" where
  "notebook =
     [validate_inputs, generate_and_select, display_candidates, display_outpainted,
      generate_video, display_final_video]"

definition run_all :: "env \<Rightarrow> event list \<times> namespace \<times> exn option" where
  "run_all e = run_cells e notebook fresh_kernel"

subsection \<open>Reading a trace\<close>

text \<open>
  The three stages the notebook runs. A stage is entered by its first action: the
  validation by the \<open>os.path.isdir\<close> test, the other two by the call of the imported
  workflow function. Those two calls are where the external models (image generation,
  selection, outpainting; video synthesis) are reached.
\<close>

datatype stage = Validation | ImageGeneration | VideoGeneration

fun stage_entry :: "event \<Rightarrow> stage option" where
  "stage_entry (IsDir d) = Some Validation"
| "stage_entry (CallGenerateImages files scen) = Some ImageGeneration"
| "stage_entry (CallGenerateVideo pp outp) = Some VideoGeneration"
| "stage_entry x = None"

definition stage_entries :: "event list \<Rightarrow> stage list" where
  "stage_entries tr = List.map_filter stage_entry tr"

fun is_model_call :: "event \<Rightarrow> bool" where
  "is_model_call (CallGenerateImages files scen) = True"
| "is_model_call (CallGenerateVideo pp outp) = True"
| "is_model_call x = False"



subsection \<open>A concrete environment\<close>

definition demo_env :: env where
  "demo_env =
     \<lparr>INPUT_DIR = ''refs'',
      os_path_isdir = (\<lambda>p. p = ''refs'' \<or> p = ''refs/old''),
      os_listdir = (\<lambda>p. if p = ''refs'' then Some [''a.png'', ''old'', ''notes.txt'']
                         else if p = ''refs/old'' then Some [''b.png''] else None),
      os_path_isfile = (\<lambda>p. p = ''refs/a.png'' \<or> p = ''refs/notes.txt'' \<or> p = ''refs/old/b.png''),
      os_path_exists = (\<lambda>p. p = ''out/p/video.mp4''),
      generate_images_and_select_best =
        (\<lambda>files scen. Inr (''out/p'', ''out/p/wide.png'', [''out/p/0.png'', ''out/p/1.png''])),
      generate_video_from_best_image = (\<lambda>pp outp. Inr (Some ''out/p/video.mp4'')),
      display_Image = (\<lambda>p w. None),
      display_Video = (\<lambda>p w. None),
      list_after_generate_images = (\<lambda>files scen. files),
      list_after_generate_video = (\<lambda>pp outp files. files),
      disk_after_generate_images =
        (\<lambda>files scen d. d(''out/p/0.png'' \<mapsto> ''c0'', ''out/p/1.png'' \<mapsto> ''c1'',
                            ''out/p/wide.png'' \<mapsto> ''w'')),
      disk_after_generate_video = (\<lambda>pp outp d. d(''out/p/video.mp4'' \<mapsto> ''v''))\<rparr>"


text \<open>The same environment with a directory that holds one text file and a subdirectory.\<close>

definition notes_only_env :: env where
  "notes_only_env = demo_env\<lparr>os_listdir := (\<lambda>p. Some [''notes.txt'', ''old''])\<rparr>"

definition ends_with_png :: "string \<Rightarrow> bool" where
  "ends_with_png n = (drop (length n - 4) n = ''.png'')"

text \<open>Environments in which one step fails.\<close>

definition missing_dir_env :: env where
  "missing_dir_env = demo_env\<lparr>INPUT_DIR := ''missing''\<rparr>"

definition empty_dir_env :: env where
  "empty_dir_env = demo_env\<lparr>os_listdir := (\<lambda>p. Some [''old''])\<rparr>"

definition failing_generation_env :: env where
  "failing_generation_env =
     demo_env\<lparr>generate_images_and_select_best :=
                (\<lambda>files scen. Inl (Exception ''image generation failed''))\<rparr>"

definition failing_video_env :: env where
  "failing_video_env =
     demo_env\<lparr>generate_video_from_best_image :=
                (\<lambda>pp outp. Inl (Exception ''video generation failed''))\<rparr>"


definition video_done :: namespace where
  "video_done = fresh_kernel\<lparr>video_path := Some (Some ''out/p/video.mp4'')\<rparr>"

definition video_lost :: namespace where
  "video_lost = fresh_kernel\<lparr>video_path := Some (Some ''out/p/lost.mp4'')\<rparr>"

section \<open>Stages inside \<open>generate_images_and_select_best\<close>\<close>

text \<open>
  The notebook imports \<open>generate_images_and_select_best\<close> from the module
  \<open>image_generator\<close>, which is not among the sources. The candidate generation, the
  selection and the outpainting happen inside that function. The definitions of this
  section follow sections 3, 4, 6 and 7 of the specification.
\<close>

text \<open>Modelled from the spec: the error taxonomy of section 7 (the modules that raise
  these errors, \<open>image_generator\<close> and \<open>video_generator\<close>, are missing).\<close>

datatype pipeline_error =
    InputValidationError
  | SchemaViolation
  | GenerationEmpty
  | GenerationFailed
  | SelectionAmbiguous
  | OutpaintFailed
  | VideoGenerationFailed

text \<open>Modelled from the spec: the data model of section 3. An image is a byte blob with
  its pixel dimensions; a ReferenceImage is "a byte blob plus a source path"; a
  CandidateImage is "a generated square image plus an identifier/index".\<close>

record image =
  img_width :: nat
  img_height :: nat
  img_bytes :: string

record reference_image =
  source_path :: string
  blob :: image

record candidate_image =
  cand_id :: nat
  picture :: image

text \<open>Modelled from the spec: an aspect ratio \<open>a:b\<close> and what it is for an image to have
  it exactly (section 8: "exactly 16:9 (e.g., 1920x1080 or equivalent ratio)").\<close>

type_synonym ratio = "nat \<times> nat"

definition has_ratio :: "image \<Rightarrow> ratio \<Rightarrow> bool" where
  "has_ratio img r =
     (0 < img_height img \<and> img_width img * snd r = img_height img * fst r)"

definition square :: ratio where
  "square = (1, 1)"

definition widescreen :: ratio where
  "widescreen = (16, 9)"

text \<open>Modelled from the spec: what the vision-language service answers when asked to
  select (section 6: "a single selected index"; section 8: the identifier may be
  "out-of-range or unparseable"). The answer either reads as an index or does not.\<close>

datatype selector_reply = Picked int | Unparseable string

text \<open>Modelled from the spec: the provider capabilities of section 6 that stages 4 to 6
  use, as black boxes. The image service takes reference images, guidance text (the subject
  description and the scenario) and a target aspect ratio; request number \<open>k\<close> of the
  "N independent image requests" (section 5) yields one image, or \<open>None\<close> when the provider
  returns no image or an error. The outpainting request takes the image to extend and the
  target ratio; \<open>None\<close> is the provider's rejection.\<close>

record providers =
  synthesize :: "nat \<Rightarrow> reference_image list \<Rightarrow> string \<Rightarrow> string \<Rightarrow> ratio \<Rightarrow> image option"
  judge :: "candidate_image list \<Rightarrow> reference_image list \<Rightarrow> selector_reply"
  outpaint :: "image \<Rightarrow> ratio \<Rightarrow> image option"

text \<open>Modelled from the spec: section 6 says of the image service that its output is
  "generated images at the requested ratio".\<close>

definition honours_ratio :: "(image \<Rightarrow> ratio \<Rightarrow> image option) \<Rightarrow> bool" where
  "honours_ratio service = (\<forall>img r out. service img r = Some out \<longrightarrow> has_ratio out r)"

text \<open>Modelled from the spec: section 4.3, the Candidate Image Generator (inside the
  missing \<open>image_generator\<close>). "Invokes image synthesis to produce exactly N
  CandidateImages, each 1:1 aspect ratio. All N calls may be issued independently. Fails
  with GenerationFailed if the provider returns fewer than N images or an error; do not
  silently proceed with a partial set." The candidates are identified by their index.\<close>

definition candidate_image_generator ::
  "providers \<Rightarrow> reference_image list \<Rightarrow> string \<Rightarrow> string \<Rightarrow> nat
     \<Rightarrow> pipeline_error + candidate_image list" where
  "candidate_image_generator p refs description scenario n =
     (case those (map (\<lambda>k. synthesize p k refs description scenario square) [0..<n]) of
        None \<Rightarrow> Inl GenerationFailed
      | Some imgs \<Rightarrow>
          Inr (map (\<lambda>(k, img). \<lparr>cand_id = k, picture = img\<rparr>) (zip [0..<n] imgs)))"

text \<open>Modelled from the spec: section 4.4, the Best-Candidate Selector (inside the
  missing \<open>image_generator\<close>). "Given the set of N CandidateImages and the original
  ReferenceImages, returns the index/identifier of exactly one CandidateImage. Fails with
  SelectionAmbiguous if the selector's output cannot be mapped back to one of the N
  candidate identifiers; must not silently default to index 0."\<close>

definition best_candidate_selector ::
  "providers \<Rightarrow> candidate_image list \<Rightarrow> reference_image list \<Rightarrow> pipeline_error + nat" where
  "best_candidate_selector p candidates refs =
     (case judge p candidates refs of
        Unparseable answer \<Rightarrow> Inl SelectionAmbiguous
      | Picked i \<Rightarrow>
          (case find (\<lambda>c. int (cand_id c) = i) candidates of
             None \<Rightarrow> Inl SelectionAmbiguous
           | Some c \<Rightarrow> Inr (cand_id c)))"

text \<open>Modelled from the spec: section 4.5, the Outpainting Stage (inside the missing
  \<open>image_generator\<close>). "Given the SelectedImage, extends canvas to 16:9. Fails with
  OutpaintFailed if the provider rejects the aspect-ratio request."\<close>

definition outpainting_stage :: "providers \<Rightarrow> image \<Rightarrow> pipeline_error + image" where
  "outpainting_stage p selected =
     (case outpaint p selected widescreen of
        None \<Rightarrow> Inl OutpaintFailed
      | Some wide \<Rightarrow> Inr wide)"

text \<open>Modelled from the spec: the part "Candidates Generated, Selected, Outpainted" of
  the pipeline state machine of section 4: a transition is taken only when the
  corresponding component succeeds, and "any component failure" ends the run. The run
  yields the candidates, the promoted candidate and the outpainted image.\<close>

definition generate_select_outpaint ::
  "providers \<Rightarrow> reference_image list \<Rightarrow> string \<Rightarrow> string \<Rightarrow> nat
     \<Rightarrow> pipeline_error + (candidate_image list \<times> candidate_image \<times> image)" where
  "generate_select_outpaint p refs description scenario n =
     (case candidate_image_generator p refs description scenario n of
        Inl err \<Rightarrow> Inl err
      | Inr candidates \<Rightarrow>
          (case best_candidate_selector p candidates refs of
             Inl err \<Rightarrow> Inl err
           | Inr chosen \<Rightarrow>
               (case find (\<lambda>c. cand_id c = chosen) candidates of
                  None \<Rightarrow> Inl SelectionAmbiguous
                | Some selected \<Rightarrow>
                    (case outpainting_stage p (picture selected) of
                       Inl err \<Rightarrow> Inl err
                     | Inr wide \<Rightarrow> Inr (candidates, selected, wide)))))"


text \<open>Providers for concrete runs: one that answers every request, one whose fourth
  image request fails, one whose selection answer is out of range, one that rejects the
  outpainting request.\<close>

definition one_reference :: "reference_image list" where
  "one_reference =
     [\<lparr>source_path = ''refs/a.png'',
       blob = \<lparr>img_width = 640, img_height = 480, img_bytes = ''a''\<rparr>\<rparr>]"

definition good_providers :: providers where
  "good_providers =
     \<lparr>synthesize = (\<lambda>k refs d sc r.
         Some \<lparr>img_width = 1024 * fst r, img_height = 1024 * snd r, img_bytes = sc\<rparr>),
      judge = (\<lambda>cands refs. Picked 2),
      outpaint = (\<lambda>img r.
         if fst r = 0 \<or> snd r = 0 then None
         else Some \<lparr>img_width = 120 * fst r, img_height = 120 * snd r,
                    img_bytes = img_bytes img\<rparr>)\<rparr>"

definition short_providers :: providers where
  "short_providers =
     good_providers\<lparr>synthesize := (\<lambda>k refs d sc r.
        if k = 3 then None else synthesize good_providers k refs d sc r)\<rparr>"

definition confused_providers :: providers where
  "confused_providers = good_providers\<lparr>judge := (\<lambda>cands refs. Picked 7)\<rparr>"

definition rejecting_providers :: providers where
  "rejecting_providers = good_providers\<lparr>outpaint := (\<lambda>img r. None)\<rparr>"

section \<open>Input validation\<close>

subsection \<open>The four ways the validation cell ends\<close>

lemma validate_inputs_ok:
  assumes "os_path_isdir e (INPUT_DIR e)" "os_listdir e (INPUT_DIR e) = Some names"
    and "list_regular_files e (INPUT_DIR e) names \<noteq> []"
  shows "\<exists>msg. validate_inputs e s =
           ([IsDir (INPUT_DIR e), ListDir (INPUT_DIR e)]
              @ map (\<lambda>f. IsFile (os_path_join (INPUT_DIR e) f)) names @ [Print msg],
            s\<lparr>IMAGE_LOCATION := Some (INPUT_DIR e), SCENARIO := Some the_scenario,
              image_files := Some (list_regular_files e (INPUT_DIR e) names)\<rparr>, None)"
  using assms by (simp add: validate_inputs_def Let_def)

lemma validate_inputs_not_dir:
  assumes "\<not> os_path_isdir e (INPUT_DIR e)"
  shows "validate_inputs e s =
           ([IsDir (INPUT_DIR e)],
            s\<lparr>IMAGE_LOCATION := Some (INPUT_DIR e), SCENARIO := Some the_scenario\<rparr>,
            Some (not_a_valid_directory (INPUT_DIR e)))"
  using assms by (simp add: validate_inputs_def Let_def)

lemma validate_inputs_unreadable:
  assumes "os_path_isdir e (INPUT_DIR e)" "os_listdir e (INPUT_DIR e) = None"
  shows "validate_inputs e s =
           ([IsDir (INPUT_DIR e), ListDir (INPUT_DIR e)],
            s\<lparr>IMAGE_LOCATION := Some (INPUT_DIR e), SCENARIO := Some the_scenario\<rparr>,
            Some (OSError (INPUT_DIR e)))"
  using assms by (simp add: validate_inputs_def Let_def)

lemma validate_inputs_no_files:
  assumes "os_path_isdir e (INPUT_DIR e)" "os_listdir e (INPUT_DIR e) = Some names"
    and "list_regular_files e (INPUT_DIR e) names = []"
  shows "validate_inputs e s =
           ([IsDir (INPUT_DIR e), ListDir (INPUT_DIR e)]
              @ map (\<lambda>f. IsFile (os_path_join (INPUT_DIR e) f)) names,
            s\<lparr>IMAGE_LOCATION := Some (INPUT_DIR e), SCENARIO := Some the_scenario,
              image_files := Some []\<rparr>,
            Some (no_image_files_found (INPUT_DIR e)))"
  using assms by (simp add: validate_inputs_def Let_def)

lemma list_regular_files_empty_iff:
  "list_regular_files e loc names = [] \<longleftrightarrow>
     (\<forall>f\<in>set names. \<not> os_path_isfile e (os_path_join loc f))"
  by (induction names) (auto simp: list_regular_files_def)

lemma list_regular_files_filter:
  "list_regular_files e loc names =
     map (os_path_join loc) (filter (\<lambda>f. os_path_isfile e (os_path_join loc f)) names)"
  by (induction names) (auto simp: list_regular_files_def)

subsection \<open>The Reference Set Loader\<close>

text \<open>
  Claim C1. When \<open>config.INPUT_DIR\<close> is an existing directory whose listing holds at least
  one regular file, the validation cell ends without an exception and binds \<open>image_files\<close> to
  exactly the entries of the listing that are regular files, each as
  \<open>os.path.join(IMAGE_LOCATION, f)\<close>, in listing order; the only directory it lists is
  \<open>IMAGE_LOCATION\<close> itself, so nothing below a subdirectory is reached. When the path is not
  an existing directory, or the listing holds no regular file, the cell raises the
  validation error (the spec's \<open>InputValidationError\<close>; in the notebook a Python
  \<open>ValueError\<close>) and leaves no non-empty file list behind: \<open>image_files\<close> is as it was, or
  the empty list.
\<close>

theorem reference_set_loader:
  "(os_path_isdir e (INPUT_DIR e) \<and> os_listdir e (INPUT_DIR e) = Some names
      \<and> (\<exists>f\<in>set names. os_path_isfile e (os_path_join (INPUT_DIR e) f))
    \<longrightarrow> (\<exists>tr s'. validate_inputs e s = (tr, s', None)
          \<and> image_files s' =
              Some (map (os_path_join (INPUT_DIR e))
                     (filter (\<lambda>f. os_path_isfile e (os_path_join (INPUT_DIR e) f)) names))
          \<and> (\<forall>d. ListDir d \<in> set tr \<longrightarrow> d = INPUT_DIR e)))
   \<and> (\<not> os_path_isdir e (INPUT_DIR e)
        \<or> (os_listdir e (INPUT_DIR e) = Some names
             \<and> (\<forall>f\<in>set names. \<not> os_path_isfile e (os_path_join (INPUT_DIR e) f)))
    \<longrightarrow> (\<exists>tr s' msg. validate_inputs e s = (tr, s', Some (ValueError msg))
          \<and> (image_files s' = image_files s \<or> image_files s' = Some [])))"
proof (intro conjI impI)
  assume h: "os_path_isdir e (INPUT_DIR e) \<and> os_listdir e (INPUT_DIR e) = Some names
      \<and> (\<exists>f\<in>set names. os_path_isfile e (os_path_join (INPUT_DIR e) f))"
  then have ne: "list_regular_files e (INPUT_DIR e) names \<noteq> []"
    by (simp add: list_regular_files_empty_iff)
  from validate_inputs_ok [of e names s] h ne
  obtain msg where v: "validate_inputs e s =
           ([IsDir (INPUT_DIR e), ListDir (INPUT_DIR e)]
              @ map (\<lambda>f. IsFile (os_path_join (INPUT_DIR e) f)) names @ [Print msg],
            s\<lparr>IMAGE_LOCATION := Some (INPUT_DIR e), SCENARIO := Some the_scenario,
              image_files := Some (list_regular_files e (INPUT_DIR e) names)\<rparr>, None)"
    by blast
  show "\<exists>tr s'. validate_inputs e s = (tr, s', None)
          \<and> image_files s' =
              Some (map (os_path_join (INPUT_DIR e))
                     (filter (\<lambda>f. os_path_isfile e (os_path_join (INPUT_DIR e) f)) names))
          \<and> (\<forall>d. ListDir d \<in> set tr \<longrightarrow> d = INPUT_DIR e)"
    unfolding v by (auto simp: list_regular_files_filter)
next
  assume h: "\<not> os_path_isdir e (INPUT_DIR e)
        \<or> (os_listdir e (INPUT_DIR e) = Some names
             \<and> (\<forall>f\<in>set names. \<not> os_path_isfile e (os_path_join (INPUT_DIR e) f)))"
  show "\<exists>tr s' msg. validate_inputs e s = (tr, s', Some (ValueError msg))
          \<and> (image_files s' = image_files s \<or> image_files s' = Some [])"
  proof (cases "os_path_isdir e (INPUT_DIR e)")
    case False
    then show ?thesis
      by (simp add: validate_inputs_not_dir not_a_valid_directory_def)
  next
    case True
    with h have l: "os_listdir e (INPUT_DIR e) = Some names"
      and n: "list_regular_files e (INPUT_DIR e) names = []"
      by (simp_all add: list_regular_files_empty_iff)
    show ?thesis
      by (simp add: validate_inputs_no_files [OF True l n] no_image_files_found_def)
  qed
qed

theorem reference_set_loader_witness:
  "(os_path_isdir demo_env (INPUT_DIR demo_env)
      \<and> os_listdir demo_env (INPUT_DIR demo_env) = Some [''a.png'', ''old'', ''notes.txt'']
      \<and> (\<exists>f\<in>set [''a.png'', ''old'', ''notes.txt''].
            os_path_isfile demo_env (os_path_join (INPUT_DIR demo_env) f)))
   \<and> (\<exists>tr s'. validate_inputs demo_env fresh_kernel = (tr, s', None)
         \<and> image_files s' = Some [''refs/a.png'', ''refs/notes.txt''])
   \<and> \<not> os_path_isdir missing_dir_env (INPUT_DIR missing_dir_env)
   \<and> (\<exists>tr s' msg. validate_inputs missing_dir_env fresh_kernel
                     = (tr, s', Some (ValueError msg)))
   \<and> os_listdir empty_dir_env (INPUT_DIR empty_dir_env) = Some [''old'']
   \<and> \<not> os_path_isfile empty_dir_env (os_path_join (INPUT_DIR empty_dir_env) ''old'')
   \<and> (\<exists>tr s' msg. validate_inputs empty_dir_env fresh_kernel
                     = (tr, s', Some (ValueError msg)))"
  using reference_set_loader [of demo_env "[''a.png'', ''old'', ''notes.txt'']" fresh_kernel]
    reference_set_loader [of missing_dir_env "[]" fresh_kernel]
    reference_set_loader [of empty_dir_env "[''old'']" fresh_kernel]
  by (auto simp: demo_env_def missing_dir_env_def empty_dir_env_def os_path_join_def)

subsection \<open>No filter on what kind of file an entry is\<close>

text \<open>
  Claim C8. The only test the loader applies to a directory entry is \<open>os.path.isfile\<close>:
  whatever the entry's name, a regular file of the listing is in \<open>image_files\<close>. In
  particular, for any way \<open>is_image\<close> of telling image names from other names, a directory
  whose regular files are all non-images is accepted, and those files are the reference set.
\<close>

theorem loader_takes_every_regular_file:
  assumes "os_path_isdir e (INPUT_DIR e)" and "os_listdir e (INPUT_DIR e) = Some names"
    and "f \<in> set names" and "os_path_isfile e (os_path_join (INPUT_DIR e) f)"
    and "\<forall>g\<in>set names. os_path_isfile e (os_path_join (INPUT_DIR e) g) \<longrightarrow> \<not> is_image g"
  shows "\<exists>tr s' files. validate_inputs e s = (tr, s', None) \<and> image_files s' = Some files
           \<and> os_path_join (INPUT_DIR e) f \<in> set files
           \<and> files = map (os_path_join (INPUT_DIR e))
                        (filter (\<lambda>g. os_path_isfile e (os_path_join (INPUT_DIR e) g)) names)"
proof -
  from assms(3,4) have ne: "list_regular_files e (INPUT_DIR e) names \<noteq> []"
    by (auto simp: list_regular_files_empty_iff)
  from validate_inputs_ok [OF assms(1,2) ne, of s] assms(3,4)
  show ?thesis by (auto simp: list_regular_files_filter)
qed

theorem loader_takes_every_regular_file_witness:
  "os_path_isdir notes_only_env (INPUT_DIR notes_only_env)
   \<and> os_listdir notes_only_env (INPUT_DIR notes_only_env) = Some [''notes.txt'', ''old'']
   \<and> ''notes.txt'' \<in> set [''notes.txt'', ''old'']
   \<and> os_path_isfile notes_only_env (os_path_join (INPUT_DIR notes_only_env) ''notes.txt'')
   \<and> \<not> ends_with_png ''notes.txt''
   \<and> \<not> os_path_isfile notes_only_env (os_path_join (INPUT_DIR notes_only_env) ''old'')
   \<and> (\<exists>tr s'. validate_inputs notes_only_env fresh_kernel = (tr, s', None)
         \<and> image_files s' = Some [''refs/notes.txt''])"
  using loader_takes_every_regular_file
          [of notes_only_env "[''notes.txt'', ''old'']" "''notes.txt''" ends_with_png fresh_kernel]
  by (auto simp: notes_only_env_def demo_env_def os_path_join_def ends_with_png_def)

subsection \<open>Order and exclusiveness of the two validation errors\<close>

text \<open>
  Claim C9. The directory test comes first: a path that is not an existing directory
  raises the not-a-valid-directory error after the single \<open>os.path.isdir\<close> probe, with no
  \<open>os.listdir\<close> call at all. The no-image-files error is raised only for a path that passed
  the directory test, after the listing. No run of the cell ends in both errors.
\<close>

theorem validation_errors_ordered_and_exclusive:
  assumes "validate_inputs e s = (tr, s', r)"
  shows "(\<not> os_path_isdir e (INPUT_DIR e) \<longrightarrow>
            r = Some (not_a_valid_directory (INPUT_DIR e)) \<and> tr = [IsDir (INPUT_DIR e)])
       \<and> (r = Some (not_a_valid_directory (INPUT_DIR e)) \<longrightarrow>
            \<not> os_path_isdir e (INPUT_DIR e) \<and> (\<forall>d. ListDir d \<notin> set tr))
       \<and> (r = Some (no_image_files_found (INPUT_DIR e)) \<longrightarrow>
            os_path_isdir e (INPUT_DIR e)
            \<and> take 2 tr = [IsDir (INPUT_DIR e), ListDir (INPUT_DIR e)])
       \<and> \<not> (r = Some (not_a_valid_directory (INPUT_DIR e))
              \<and> r = Some (no_image_files_found (INPUT_DIR e)))"
  using assms
  by (auto simp: validate_inputs_def Let_def not_a_valid_directory_def no_image_files_found_def
           split: if_splits option.splits)

theorem validation_errors_ordered_and_exclusive_witness:
  "validate_inputs missing_dir_env fresh_kernel =
     ([IsDir ''missing''],
      fresh_kernel\<lparr>IMAGE_LOCATION := Some ''missing'', SCENARIO := Some the_scenario\<rparr>,
      Some (not_a_valid_directory ''missing''))
   \<and> \<not> os_path_isdir missing_dir_env ''missing''
   \<and> (\<forall>d. ListDir d \<notin> set [IsDir ''missing''])
   \<and> validate_inputs empty_dir_env fresh_kernel =
     ([IsDir ''refs'', ListDir ''refs'', IsFile ''refs/old''],
      fresh_kernel\<lparr>IMAGE_LOCATION := Some ''refs'', SCENARIO := Some the_scenario,
        image_files := Some []\<rparr>,
      Some (no_image_files_found ''refs''))
   \<and> os_path_isdir empty_dir_env ''refs''
   \<and> take 2 [IsDir ''refs'', ListDir ''refs'', IsFile ''refs/old'']
       = [IsDir ''refs'', ListDir ''refs'']"
  using validation_errors_ordered_and_exclusive
          [of missing_dir_env fresh_kernel "[IsDir ''missing'']"
              "fresh_kernel\<lparr>IMAGE_LOCATION := Some ''missing'', SCENARIO := Some the_scenario\<rparr>"
              "Some (not_a_valid_directory ''missing'')"]
        validation_errors_ordered_and_exclusive
          [of empty_dir_env fresh_kernel
              "[IsDir ''refs'', ListDir ''refs'', IsFile ''refs/old'']"
              "fresh_kernel\<lparr>IMAGE_LOCATION := Some ''refs'', SCENARIO := Some the_scenario,
                 image_files := Some []\<rparr>"
              "Some (no_image_files_found ''refs'')"]
  by (simp add: validate_inputs_def Let_def demo_env_def missing_dir_env_def empty_dir_env_def
        list_regular_files_def os_path_join_def)

section \<open>Runs of the whole notebook\<close>

subsection \<open>What each cell does, and the six ways a run ends\<close>

lemma validate_inputs_binds:
  assumes "validate_inputs e s = (tv, sv, None)"
  shows "\<exists>names. os_path_isdir e (INPUT_DIR e) \<and> os_listdir e (INPUT_DIR e) = Some names
           \<and> list_regular_files e (INPUT_DIR e) names \<noteq> []
           \<and> image_files sv = Some (list_regular_files e (INPUT_DIR e) names)
           \<and> SCENARIO sv = Some the_scenario"
  using assms
  by (auto simp: validate_inputs_def Let_def split: if_splits option.splits)

lemma generate_and_select_raises:
  assumes "image_files s = Some files" "SCENARIO s = Some scen"
    and "generate_images_and_select_best e files scen = Inl x"
  shows "generate_and_select e s =
           ([LogInfo ''Step 1: Generating images and selecting the best candidate...'',
             CallGenerateImages files scen],
            s\<lparr>image_files := Some (list_after_generate_images e files scen)\<rparr>, Some x)"
  using assms by (simp add: generate_and_select_def)

lemma generate_and_select_returns:
  assumes "image_files s = Some files" "SCENARIO s = Some scen"
    and "generate_images_and_select_best e files scen = Inr (pp, outp, cands)"
  shows "generate_and_select e s =
           ([LogInfo ''Step 1: Generating images and selecting the best candidate...'',
             CallGenerateImages files scen,
             LogInfo (''Best image selected and outpainted to: '' @ outp),
             LogInfo (''Generated assets stored in: '' @ pp)],
            s\<lparr>image_files := Some (list_after_generate_images e files scen),
              person_path := Some pp, outpainted_image_path := Some outp,
              candidate_image_paths := Some cands\<rparr>, None)"
  using assms by (simp add: generate_and_select_def)

lemma generate_video_raises:
  assumes "person_path s = Some pp" "outpainted_image_path s = Some outp"
    and "generate_video_from_best_image e pp outp = Inl x"
  shows "generate_video e s =
           ([LogInfo ''Step 2: Generating video from the best image...'',
             CallGenerateVideo pp outp],
            s\<lparr>image_files := map_option (list_after_generate_video e pp outp) (image_files s)\<rparr>,
            Some x)"
  using assms by (simp add: generate_video_def)

lemma generate_video_returns:
  assumes "person_path s = Some pp" "outpainted_image_path s = Some outp"
    and "generate_video_from_best_image e pp outp = Inr v"
  shows "generate_video e s =
           ([LogInfo ''Step 2: Generating video from the best image...'',
             CallGenerateVideo pp outp,
             LogInfo (''Successfully generated video: '' @ str_opt v)],
            s\<lparr>image_files := map_option (list_after_generate_video e pp outp) (image_files s),
              video_path := Some v\<rparr>, None)"
  using assms by (simp add: generate_video_def)

lemma run_all_cases [case_names validation generation candidates outpainted video final]:
  obtains
    tv sv x where
      "validate_inputs e fresh_kernel = (tv, sv, Some x)"
      "run_all e = (tv, sv, Some x)"
  | tv sv files x s1 where
      "validate_inputs e fresh_kernel = (tv, sv, None)"
      "image_files sv = Some files"
      "generate_images_and_select_best e files the_scenario = Inl x"
      "run_all e =
         (tv @ [LogInfo ''Step 1: Generating images and selecting the best candidate...'',
                CallGenerateImages files the_scenario], s1, Some x)"
  | tv sv files pp outp cands td x s2 where
      "validate_inputs e fresh_kernel = (tv, sv, None)"
      "image_files sv = Some files"
      "generate_images_and_select_best e files the_scenario = Inr (pp, outp, cands)"
      "display_each e cands = (td, Some x)"
      "run_all e =
         (tv @ [LogInfo ''Step 1: Generating images and selecting the best candidate...'',
                CallGenerateImages files the_scenario,
                LogInfo (''Best image selected and outpainted to: '' @ outp),
                LogInfo (''Generated assets stored in: '' @ pp)] @ td, s2, Some x)"
  | tv sv files pp outp cands td x s2 where
      "validate_inputs e fresh_kernel = (tv, sv, None)"
      "image_files sv = Some files"
      "generate_images_and_select_best e files the_scenario = Inr (pp, outp, cands)"
      "display_each e cands = (td, None)"
      "display_Image e outp 600 = Some x"
      "run_all e =
         (tv @ [LogInfo ''Step 1: Generating images and selecting the best candidate...'',
                CallGenerateImages files the_scenario,
                LogInfo (''Best image selected and outpainted to: '' @ outp),
                LogInfo (''Generated assets stored in: '' @ pp)] @ td
             @ [DisplayImage outp 600], s2, Some x)"
  | tv sv files pp outp cands td x s3 where
      "validate_inputs e fresh_kernel = (tv, sv, None)"
      "image_files sv = Some files"
      "generate_images_and_select_best e files the_scenario = Inr (pp, outp, cands)"
      "display_each e cands = (td, None)"
      "display_Image e outp 600 = None"
      "generate_video_from_best_image e pp outp = Inl x"
      "run_all e =
         (tv @ [LogInfo ''Step 1: Generating images and selecting the best candidate...'',
                CallGenerateImages files the_scenario,
                LogInfo (''Best image selected and outpainted to: '' @ outp),
                LogInfo (''Generated assets stored in: '' @ pp)] @ td
             @ [DisplayImage outp 600,
                LogInfo ''Step 2: Generating video from the best image...'',
                CallGenerateVideo pp outp], s3, Some x)"
  | tv sv files pp outp cands td v tf r s5 where
      "validate_inputs e fresh_kernel = (tv, sv, None)"
      "image_files sv = Some files"
      "generate_images_and_select_best e files the_scenario = Inr (pp, outp, cands)"
      "display_each e cands = (td, None)"
      "display_Image e outp 600 = None"
      "generate_video_from_best_image e pp outp = Inr v"
      "display_final_video e s5 = (tf, s5, r)"
      "run_all e =
         (tv @ [LogInfo ''Step 1: Generating images and selecting the best candidate...'',
                CallGenerateImages files the_scenario,
                LogInfo (''Best image selected and outpainted to: '' @ outp),
                LogInfo (''Generated assets stored in: '' @ pp)] @ td
             @ [DisplayImage outp 600,
                LogInfo ''Step 2: Generating video from the best image...'',
                CallGenerateVideo pp outp,
                LogInfo (''Successfully generated video: '' @ str_opt v)] @ tf, s5, r)"
proof -
  obtain tv sv rv where V: "validate_inputs e fresh_kernel = (tv, sv, rv)"
    by (metis prod_cases3)
  show thesis
  proof (cases rv)
    case (Some x)
    with V have "run_all e = (tv, sv, Some x)"
      by (simp add: run_all_def notebook_def)
    with V Some show thesis using that(1) by blast
  next
    case None
    note V = V [unfolded None]
    from validate_inputs_binds [OF V] obtain files where
      F: "image_files sv = Some files" and S: "SCENARIO sv = Some the_scenario"
      by blast
    show thesis
    proof (cases "generate_images_and_select_best e files the_scenario")
      case (Inl x)
      have "run_all e =
         (tv @ [LogInfo ''Step 1: Generating images and selecting the best candidate...'',
                CallGenerateImages files the_scenario],
          sv\<lparr>image_files := Some (list_after_generate_images e files the_scenario)\<rparr>,
          Some x)"
        by (simp add: run_all_def notebook_def V generate_and_select_raises [OF F S Inl])
      with V F Inl show thesis using that(2) by blast
    next
      case (Inr res)
      obtain pp outp cands where res: "res = (pp, outp, cands)"
        by (metis prod_cases3)
      note G = Inr [unfolded res]
      let ?s2 = "sv\<lparr>image_files := Some (list_after_generate_images e files the_scenario),
             person_path := Some pp, outpainted_image_path := Some outp,
             candidate_image_paths := Some cands\<rparr>"
      note GS = generate_and_select_returns [OF F S G]
      obtain td rd where D: "display_each e cands = (td, rd)"
        by (metis prod.exhaust)
      have DC: "display_candidates e ?s2 = (td, ?s2, rd)"
        by (simp add: display_candidates_def D)
      show thesis
      proof (cases rd)
        case (Some x)
        have "run_all e =
         (tv @ [LogInfo ''Step 1: Generating images and selecting the best candidate...'',
                CallGenerateImages files the_scenario,
                LogInfo (''Best image selected and outpainted to: '' @ outp),
                LogInfo (''Generated assets stored in: '' @ pp)] @ td, ?s2, Some x)"
          by (simp add: run_all_def notebook_def V GS DC Some)
        with V F G D Some show thesis using that(3) by blast
      next
        case None
        note D = D [unfolded None] and DC = DC [unfolded None]
        have DO: "display_outpainted e ?s2 = ([DisplayImage outp 600], ?s2, display_Image e outp 600)"
          by (simp add: display_outpainted_def)
        show thesis
        proof (cases "display_Image e outp 600")
          case (Some x)
          have "run_all e =
            (tv @ [LogInfo ''Step 1: Generating images and selecting the best candidate...'',
                CallGenerateImages files the_scenario,
                LogInfo (''Best image selected and outpainted to: '' @ outp),
                LogInfo (''Generated assets stored in: '' @ pp)] @ td
             @ [DisplayImage outp 600], ?s2, Some x)"
            by (simp add: run_all_def notebook_def V GS DC DO Some)
          with V F G D Some show thesis using that(4) by blast
        next
          case None
          note DO = DO [unfolded None]
          show thesis
          proof (cases "generate_video_from_best_image e pp outp")
            case (Inl x)
            let ?s3 = "?s2\<lparr>image_files :=
                          map_option (list_after_generate_video e pp outp) (image_files ?s2)\<rparr>"
            have GV: "generate_video e ?s2 =
               ([LogInfo ''Step 2: Generating video from the best image...'',
                 CallGenerateVideo pp outp], ?s3, Some x)"
              by (rule generate_video_raises) (simp_all add: Inl)
            have "run_all e =
              (tv @ [LogInfo ''Step 1: Generating images and selecting the best candidate...'',
                CallGenerateImages files the_scenario,
                LogInfo (''Best image selected and outpainted to: '' @ outp),
                LogInfo (''Generated assets stored in: '' @ pp)] @ td
               @ [DisplayImage outp 600,
                LogInfo ''Step 2: Generating video from the best image...'',
                CallGenerateVideo pp outp], ?s3, Some x)"
              by (simp add: run_all_def notebook_def V GS DC DO GV)
            with V F G D None Inl show thesis using that(5) by blast
          next
            case (Inr v)
            define s5 where "s5 = ?s2\<lparr>image_files :=
                          map_option (list_after_generate_video e pp outp) (image_files ?s2),
                        video_path := Some v\<rparr>"
            have GV: "generate_video e ?s2 =
               ([LogInfo ''Step 2: Generating video from the best image...'',
                 CallGenerateVideo pp outp,
                 LogInfo (''Successfully generated video: '' @ str_opt v)], s5, None)"
              unfolding s5_def by (rule generate_video_returns) (simp_all add: Inr)
            obtain tf sf r where FV: "display_final_video e s5 = (tf, sf, r)"
              by (metis prod_cases3)
            then have sf: "sf = s5"
              by (auto simp: display_final_video_def split: option.splits if_splits)
            have "run_all e =
              (tv @ [LogInfo ''Step 1: Generating images and selecting the best candidate...'',
                CallGenerateImages files the_scenario,
                LogInfo (''Best image selected and outpainted to: '' @ outp),
                LogInfo (''Generated assets stored in: '' @ pp)] @ td
               @ [DisplayImage outp 600,
                LogInfo ''Step 2: Generating video from the best image...'',
                CallGenerateVideo pp outp,
                LogInfo (''Successfully generated video: '' @ str_opt v)] @ tf, s5, r)"
              by (cases r) (simp_all add: run_all_def notebook_def V GS DC DO GV FV [unfolded sf])
            with V F G D None Inr FV [unfolded sf] show thesis using that(6) by blast
          qed
        qed
      qed
    qed
  qed
qed

lemma stage_entries_Nil [simp]: "stage_entries [] = []"
  by (simp add: stage_entries_def List.map_filter_simps)

lemma stage_entries_Cons [simp]:
  "stage_entries (x # xs) =
     (case stage_entry x of None \<Rightarrow> stage_entries xs | Some st \<Rightarrow> st # stage_entries xs)"
  by (cases "stage_entry x") (simp_all add: stage_entries_def List.map_filter_simps)

lemma stage_entries_append [simp]:
  "stage_entries (xs @ ys) = stage_entries xs @ stage_entries ys"
  by (induction xs) (simp_all split: option.splits)

lemma stage_entries_IsFile [simp]: "stage_entries (map (\<lambda>f. IsFile (g f)) names) = []"
  by (induction names) simp_all

lemma validate_inputs_trace:
  assumes "validate_inputs e s = (tv, sv, r)"
  shows "stage_entries tv = [Validation]"
    and "CallGenerateImages fs sc \<notin> set tv" and "CallGenerateVideo p q \<notin> set tv"
    and "DisplayVideo p w \<notin> set tv"
    and "take 1 tv = [IsDir (INPUT_DIR e)]"
  using assms
  by (auto simp: validate_inputs_def Let_def split: if_splits option.splits)

lemma display_each_images:
  "display_each e ps = (td, r) \<Longrightarrow> \<forall>x\<in>set td. \<exists>p. x = DisplayImage p 256"
proof (induction ps arbitrary: td r)
  case Nil
  then show ?case by simp
next
  case (Cons p ps)
  then show ?case
    by (cases "display_Image e p 256"; cases "display_each e ps") auto
qed

lemma only_images_no_entries:
  "\<forall>x\<in>set td. \<exists>p. x = DisplayImage p 256 \<Longrightarrow> stage_entries td = []"
  by (induction td) auto

lemma display_each_trace:
  assumes "display_each e ps = (td, r)"
  shows "stage_entries td = []"
    and "CallGenerateImages fs sc \<notin> set td" and "CallGenerateVideo p q \<notin> set td"
    and "DisplayVideo p w \<notin> set td"
  using display_each_images [OF assms] only_images_no_entries [of td] by auto

lemma display_final_video_trace:
  assumes "display_final_video e s = (tf, sf, r)"
  shows "stage_entries tf = []"
    and "CallGenerateImages fs sc \<notin> set tf" and "CallGenerateVideo p q \<notin> set tf"
  using assms
  by (auto simp: display_final_video_def could_not_display_def split: if_splits option.splits)

lemma run_all_stage_entries:
  assumes "run_all e = (tr, s, r)"
  shows "stage_entries tr \<in> {[Validation], [Validation, ImageGeneration],
                        [Validation, ImageGeneration, VideoGeneration]}"
proof (cases e rule: run_all_cases)
  case (validation tv' sv' x')
  with assms validate_inputs_trace [OF validation(1)] show ?thesis by auto
next
  case (generation tv' sv' files' x' s1')
  with assms validate_inputs_trace [OF generation(1)] show ?thesis by auto
next
  case (candidates tv' sv' files' pp' outp' cands' td' x' s2')
  with assms validate_inputs_trace [OF candidates(1)] display_each_trace [OF candidates(4)]
  show ?thesis by auto
next
  case (outpainted tv' sv' files' pp' outp' cands' td' x' s2')
  with assms validate_inputs_trace [OF outpainted(1)] display_each_trace [OF outpainted(4)]
  show ?thesis by auto
next
  case (video tv' sv' files' pp' outp' cands' td' x' s2')
  with assms validate_inputs_trace [OF video(1)] display_each_trace [OF video(4)]
  show ?thesis by auto
next
  case (final tv' sv' files' pp' outp' cands' td' v' tf' r' s5')
  with assms validate_inputs_trace [OF final(1)] display_each_trace [OF final(4)]
    display_final_video_trace [OF final(7)]
  show ?thesis by auto
qed


lemma video_call_after_generation:
  assumes "run_all e = (tr, s, r)" and "CallGenerateVideo pp outp \<in> set tr"
  shows "\<exists>files cands. CallGenerateImages files the_scenario \<in> set tr
           \<and> generate_images_and_select_best e files the_scenario = Inr (pp, outp, cands)"
proof (cases e rule: run_all_cases)
  case (validation tv' sv' x')
  with assms validate_inputs_trace [OF validation(1)] show ?thesis by auto
next
  case (generation tv' sv' files' x' s1')
  with assms validate_inputs_trace [OF generation(1)] show ?thesis by auto
next
  case (candidates tv' sv' files' pp' outp' cands' td' x' s2')
  with assms validate_inputs_trace [OF candidates(1)] display_each_trace [OF candidates(4)]
  show ?thesis by auto
next
  case (outpainted tv' sv' files' pp' outp' cands' td' x' s2')
  with assms validate_inputs_trace [OF outpainted(1)] display_each_trace [OF outpainted(4)]
  show ?thesis by auto
next
  case (video tv' sv' files' pp' outp' cands' td' x' s2')
  with assms validate_inputs_trace [OF video(1)] display_each_trace [OF video(4)]
  show ?thesis by auto
next
  case (final tv' sv' files' pp' outp' cands' td' v' tf' r' s5')
  with assms validate_inputs_trace [OF final(1)] display_each_trace [OF final(4)]
    display_final_video_trace [OF final(7)]
  show ?thesis by auto
qed

lemma validation_failure_ends_run:
  assumes "run_all e = (tr, s, r)" and "validate_inputs e fresh_kernel = (tv, sv, Some x)"
  shows "r = Some x \<and> tr = tv \<and> s = sv"
  using assms by (simp add: run_all_def notebook_def)

lemma generation_failure_ends_run:
  assumes "run_all e = (tr, s, r)" and "CallGenerateImages files scen \<in> set tr"
    and "generate_images_and_select_best e files scen = Inl x"
  shows "r = Some x \<and> last tr = CallGenerateImages files scen
           \<and> stage_entries tr = [Validation, ImageGeneration]"
proof (cases e rule: run_all_cases)
  case (validation tv' sv' x')
  with assms validate_inputs_trace [OF validation(1)] show ?thesis by auto
next
  case (generation tv' sv' files' x' s1')
  with assms validate_inputs_trace [OF generation(1)] show ?thesis by auto
next
  case (candidates tv' sv' files' pp' outp' cands' td' x' s2')
  with assms validate_inputs_trace [OF candidates(1)] display_each_trace [OF candidates(4)]
  show ?thesis by auto
next
  case (outpainted tv' sv' files' pp' outp' cands' td' x' s2')
  with assms validate_inputs_trace [OF outpainted(1)] display_each_trace [OF outpainted(4)]
  show ?thesis by auto
next
  case (video tv' sv' files' pp' outp' cands' td' x' s2')
  with assms validate_inputs_trace [OF video(1)] display_each_trace [OF video(4)]
  show ?thesis by auto
next
  case (final tv' sv' files' pp' outp' cands' td' v' tf' r' s5')
  with assms validate_inputs_trace [OF final(1)] display_each_trace [OF final(4)]
    display_final_video_trace [OF final(7)]
  show ?thesis by auto
qed

lemma video_failure_ends_run:
  assumes "run_all e = (tr, s, r)" and "CallGenerateVideo pp outp \<in> set tr"
    and "generate_video_from_best_image e pp outp = Inl x"
  shows "r = Some x \<and> last tr = CallGenerateVideo pp outp"
proof (cases e rule: run_all_cases)
  case (validation tv' sv' x')
  with assms validate_inputs_trace [OF validation(1)] show ?thesis by auto
next
  case (generation tv' sv' files' x' s1')
  with assms validate_inputs_trace [OF generation(1)] show ?thesis by auto
next
  case (candidates tv' sv' files' pp' outp' cands' td' x' s2')
  with assms validate_inputs_trace [OF candidates(1)] display_each_trace [OF candidates(4)]
  show ?thesis by auto
next
  case (outpainted tv' sv' files' pp' outp' cands' td' x' s2')
  with assms validate_inputs_trace [OF outpainted(1)] display_each_trace [OF outpainted(4)]
  show ?thesis by auto
next
  case (video tv' sv' files' pp' outp' cands' td' x' s2')
  with assms validate_inputs_trace [OF video(1)] display_each_trace [OF video(4)]
  show ?thesis by auto
next
  case (final tv' sv' files' pp' outp' cands' td' v' tf' r' s5')
  with assms validate_inputs_trace [OF final(1)] display_each_trace [OF final(4)]
    display_final_video_trace [OF final(7)]
  show ?thesis by auto
qed

lemma run_all_starts_with_validation:
  assumes "run_all e = (tr, s, r)"
  shows "\<exists>tv sv rv rest. validate_inputs e fresh_kernel = (tv, sv, rv) \<and> tr = tv @ rest
           \<and> (rv \<noteq> None \<longrightarrow> rest = [] \<and> r = rv \<and> s = sv)
           \<and> (\<forall>files scen. CallGenerateImages files scen \<in> set rest \<longrightarrow>
                  rv = None \<and> image_files sv = Some files \<and> SCENARIO sv = Some scen)"
proof (cases e rule: run_all_cases)
  case (validation tv' sv' x')
  with assms show ?thesis by auto
next
  case (generation tv' sv' files' x' s1')
  with assms validate_inputs_binds [OF generation(1)] show ?thesis by auto
next
  case (candidates tv' sv' files' pp' outp' cands' td' x' s2')
  with assms validate_inputs_binds [OF candidates(1)] display_each_trace [OF candidates(4)]
  show ?thesis by auto
next
  case (outpainted tv' sv' files' pp' outp' cands' td' x' s2')
  with assms validate_inputs_binds [OF outpainted(1)] display_each_trace [OF outpainted(4)]
  show ?thesis by auto
next
  case (video tv' sv' files' pp' outp' cands' td' x' s2')
  with assms validate_inputs_binds [OF video(1)] display_each_trace [OF video(4)]
  show ?thesis by auto
next
  case (final tv' sv' files' pp' outp' cands' td' v' tf' r' s5')
  with assms validate_inputs_binds [OF final(1)] display_each_trace [OF final(4)]
    display_final_video_trace [OF final(7)]
  show ?thesis by auto
qed








lemma validate_inputs_no_model_call:
  assumes "validate_inputs e s = (tv, sv, r)"
  shows "\<forall>x\<in>set tv. \<not> is_model_call x"
  using assms
  by (auto simp: validate_inputs_def Let_def split: if_splits option.splits)

subsection \<open>Runs in the concrete environments\<close>

lemmas run_defs = run_all_def notebook_def validate_inputs_def generate_and_select_def
  display_candidates_def display_outpainted_def generate_video_def display_final_video_def
  could_not_display_def Let_def fresh_kernel_def list_regular_files_def os_path_join_def
  demo_env_def missing_dir_env_def empty_dir_env_def failing_generation_env_def
  failing_video_env_def

lemma run_all_missing_dir:
  "run_all missing_dir_env =
     ([IsDir ''missing''],
      fresh_kernel\<lparr>IMAGE_LOCATION := Some ''missing'', SCENARIO := Some the_scenario\<rparr>,
      Some (ValueError ''The provided image location is not a valid directory: missing''))"
  by (simp add: run_defs not_a_valid_directory_def)

lemma run_all_empty_dir:
  "run_all empty_dir_env =
     ([IsDir ''refs'', ListDir ''refs'', IsFile ''refs/old''],
      fresh_kernel\<lparr>IMAGE_LOCATION := Some ''refs'', SCENARIO := Some the_scenario,
        image_files := Some []\<rparr>,
      Some (ValueError ''No image files found in the directory: refs''))"
  by (simp add: run_defs no_image_files_found_def)

lemma str_nat_2: "str_nat (Suc (Suc 0)) = ''2''"
proof -
  have "str_nat 2 = ''2''" by code_simp
  then show ?thesis by (simp add: numeral_2_eq_2)
qed

lemma run_all_demo:
  "run_all demo_env =
     ([IsDir ''refs'', ListDir ''refs'', IsFile ''refs/a.png'', IsFile ''refs/old'',
       IsFile ''refs/notes.txt'',
       Print (''Found 2 reference images in '' @ [CHR 0x27] @ ''refs'' @ [CHR 0x27] @ ''.''),
       LogInfo ''Step 1: Generating images and selecting the best candidate...'',
       CallGenerateImages [''refs/a.png'', ''refs/notes.txt''] the_scenario,
       LogInfo ''Best image selected and outpainted to: out/p/wide.png'',
       LogInfo ''Generated assets stored in: out/p'',
       DisplayImage ''out/p/0.png'' 256, DisplayImage ''out/p/1.png'' 256,
       DisplayImage ''out/p/wide.png'' 600,
       LogInfo ''Step 2: Generating video from the best image...'',
       CallGenerateVideo ''out/p'' ''out/p/wide.png'',
       LogInfo ''Successfully generated video: out/p/video.mp4'',
       Exists ''out/p/video.mp4'', Print (CHR 0x0A # ''Final Generated Video:''),
       DisplayVideo ''out/p/video.mp4'' 600],
      \<lparr>IMAGE_LOCATION = Some ''refs'', SCENARIO = Some the_scenario,
       image_files = Some [''refs/a.png'', ''refs/notes.txt''],
       person_path = Some ''out/p'', outpainted_image_path = Some ''out/p/wide.png'',
       candidate_image_paths = Some [''out/p/0.png'', ''out/p/1.png''],
       video_path = Some (Some ''out/p/video.mp4'')\<rparr>,
      None)"
  by (simp add: run_defs str_nat_2 str_opt_def)

lemma run_all_failing_generation:
  "run_all failing_generation_env =
     ([IsDir ''refs'', ListDir ''refs'', IsFile ''refs/a.png'', IsFile ''refs/old'',
       IsFile ''refs/notes.txt'',
       Print (''Found 2 reference images in '' @ [CHR 0x27] @ ''refs'' @ [CHR 0x27] @ ''.''),
       LogInfo ''Step 1: Generating images and selecting the best candidate...'',
       CallGenerateImages [''refs/a.png'', ''refs/notes.txt''] the_scenario],
      \<lparr>IMAGE_LOCATION = Some ''refs'', SCENARIO = Some the_scenario,
       image_files = Some [''refs/a.png'', ''refs/notes.txt''],
       person_path = None, outpainted_image_path = None,
       candidate_image_paths = None, video_path = None\<rparr>,
      Some (Exception ''image generation failed''))"
  by (simp add: run_defs str_nat_2 str_opt_def)

lemma run_all_failing_video:
  "run_all failing_video_env =
     ([IsDir ''refs'', ListDir ''refs'', IsFile ''refs/a.png'', IsFile ''refs/old'',
       IsFile ''refs/notes.txt'',
       Print (''Found 2 reference images in '' @ [CHR 0x27] @ ''refs'' @ [CHR 0x27] @ ''.''),
       LogInfo ''Step 1: Generating images and selecting the best candidate...'',
       CallGenerateImages [''refs/a.png'', ''refs/notes.txt''] the_scenario,
       LogInfo ''Best image selected and outpainted to: out/p/wide.png'',
       LogInfo ''Generated assets stored in: out/p'',
       DisplayImage ''out/p/0.png'' 256, DisplayImage ''out/p/1.png'' 256,
       DisplayImage ''out/p/wide.png'' 600,
       LogInfo ''Step 2: Generating video from the best image...'',
       CallGenerateVideo ''out/p'' ''out/p/wide.png''],
      \<lparr>IMAGE_LOCATION = Some ''refs'', SCENARIO = Some the_scenario,
       image_files = Some [''refs/a.png'', ''refs/notes.txt''],
       person_path = Some ''out/p'', outpainted_image_path = Some ''out/p/wide.png'',
       candidate_image_paths = Some [''out/p/0.png'', ''out/p/1.png''],
       video_path = None\<rparr>,
      Some (Exception ''video generation failed''))"
  by (simp add: run_defs str_nat_2 str_opt_def)

lemma validate_missing_dir:
  "validate_inputs missing_dir_env fresh_kernel =
     ([IsDir ''missing''],
      fresh_kernel\<lparr>IMAGE_LOCATION := Some ''missing'', SCENARIO := Some the_scenario\<rparr>,
      Some (ValueError ''The provided image location is not a valid directory: missing''))"
  by (simp add: run_defs not_a_valid_directory_def)






subsection \<open>Validation comes before every model call\<close>

text \<open>
  Claim C2. Every run of the notebook begins with the complete trace of the validation cell,
  and that trace holds no call of a workflow function; the calls of
  \<open>generate_images_and_select_best\<close> and \<open>generate_video_from_best_image\<close>, through which
  every external model is reached, lie in the rest of the trace, which is empty when the
  validation raised. When the input path is not an existing directory, or its listing holds
  no regular file, the run ends in the validation error (the spec's
  \<open>InputValidationError\<close>, a \<open>ValueError\<close> in the notebook) and its whole trace holds no
  model call.
\<close>

theorem validation_precedes_model_calls:
  assumes "run_all e = (tr, s, r)"
  shows "(\<exists>tv sv rv rest. validate_inputs e fresh_kernel = (tv, sv, rv) \<and> tr = tv @ rest
            \<and> (\<forall>x\<in>set tv. \<not> is_model_call x)
            \<and> (rv \<noteq> None \<longrightarrow> rest = [] \<and> r = rv))
       \<and> (\<forall>names. \<not> os_path_isdir e (INPUT_DIR e)
             \<or> (os_listdir e (INPUT_DIR e) = Some names
                  \<and> (\<forall>f\<in>set names. \<not> os_path_isfile e (os_path_join (INPUT_DIR e) f)))
            \<longrightarrow> (\<exists>msg. r = Some (ValueError msg)) \<and> (\<forall>x\<in>set tr. \<not> is_model_call x))"
proof -
  from run_all_starts_with_validation [OF assms]
  obtain tv sv rv rest where v: "validate_inputs e fresh_kernel = (tv, sv, rv)"
    and t: "tr = tv @ rest" and f: "rv \<noteq> None \<longrightarrow> rest = [] \<and> r = rv \<and> s = sv"
    by blast
  from validate_inputs_no_model_call [OF v] v t f
  have first: "\<exists>tv sv rv rest. validate_inputs e fresh_kernel = (tv, sv, rv) \<and> tr = tv @ rest
            \<and> (\<forall>x\<in>set tv. \<not> is_model_call x)
            \<and> (rv \<noteq> None \<longrightarrow> rest = [] \<and> r = rv)"
    by blast
  have second: "(\<exists>msg. r = Some (ValueError msg)) \<and> (\<forall>x\<in>set tr. \<not> is_model_call x)"
    if h: "\<not> os_path_isdir e (INPUT_DIR e)
     \<or> (os_listdir e (INPUT_DIR e) = Some names
          \<and> (\<forall>f\<in>set names. \<not> os_path_isfile e (os_path_join (INPUT_DIR e) f)))"
    for names
  proof -
    have "\<exists>tv sv msg. validate_inputs e fresh_kernel = (tv, sv, Some (ValueError msg))"
    proof (cases "os_path_isdir e (INPUT_DIR e)")
      case False
      then show ?thesis
        by (simp add: validate_inputs_not_dir not_a_valid_directory_def)
    next
      case True
      with h have l: "os_listdir e (INPUT_DIR e) = Some names"
        and n: "list_regular_files e (INPUT_DIR e) names = []"
        by (simp_all add: list_regular_files_empty_iff)
      show ?thesis
        by (simp add: validate_inputs_no_files [OF True l n] no_image_files_found_def)
    qed
    then obtain tv sv msg where
      v: "validate_inputs e fresh_kernel = (tv, sv, Some (ValueError msg))"
      by blast
    from validation_failure_ends_run [OF assms v] validate_inputs_no_model_call [OF v]
    show ?thesis by blast
  qed
  from first second show ?thesis by blast
qed

theorem validation_precedes_model_calls_witness:
  "run_all missing_dir_env =
     ([IsDir ''missing''],
      fresh_kernel\<lparr>IMAGE_LOCATION := Some ''missing'', SCENARIO := Some the_scenario\<rparr>,
      Some (ValueError ''The provided image location is not a valid directory: missing''))
   \<and> \<not> os_path_isdir missing_dir_env (INPUT_DIR missing_dir_env)
   \<and> list_all (\<lambda>x. \<not> is_model_call x) (fst (run_all missing_dir_env))
   \<and> run_all empty_dir_env =
     ([IsDir ''refs'', ListDir ''refs'', IsFile ''refs/old''],
      fresh_kernel\<lparr>IMAGE_LOCATION := Some ''refs'', SCENARIO := Some the_scenario,
        image_files := Some []\<rparr>,
      Some (ValueError ''No image files found in the directory: refs''))
   \<and> os_listdir empty_dir_env (INPUT_DIR empty_dir_env) = Some [''old'']
   \<and> \<not> os_path_isfile empty_dir_env (os_path_join (INPUT_DIR empty_dir_env) ''old'')
   \<and> list_all (\<lambda>x. \<not> is_model_call x) (fst (run_all empty_dir_env))"
proof -
  have h1: "\<not> os_path_isdir missing_dir_env (INPUT_DIR missing_dir_env)"
    by (simp add: missing_dir_env_def demo_env_def)
  have h2: "os_listdir empty_dir_env (INPUT_DIR empty_dir_env) = Some [''old'']"
    and h3: "\<not> os_path_isfile empty_dir_env (os_path_join (INPUT_DIR empty_dir_env) ''old'')"
    by (simp_all add: empty_dir_env_def demo_env_def os_path_join_def)
  from validation_precedes_model_calls [OF run_all_missing_dir] h1
  have c1: "\<forall>x\<in>set [IsDir ''missing'']. \<not> is_model_call x" by blast
  from validation_precedes_model_calls [OF run_all_empty_dir] h2 h3
  have c2: "\<forall>x\<in>set [IsDir ''refs'', ListDir ''refs'', IsFile ''refs/old'']. \<not> is_model_call x"
    by (metis empty_iff empty_set set_ConsD)
  from c1 c2 h1 h2 h3 show ?thesis
    by (simp add: run_all_missing_dir run_all_empty_dir)
qed


subsection \<open>Stages run once, in order, and a failure ends the run\<close>

text \<open>
  Claim C6. In every run of the notebook from a fresh kernel the stages entered are
  validation, then possibly image generation (with selection and outpainting), then
  possibly video generation: each at most once and in this order, validation always
  first. A call of the video function is always preceded by a call of the image function
  that returned, and its two arguments are the \<open>person_path\<close> and
  \<open>outpainted_image_path\<close> that call returned. A stage that raises ends the run with its
  exception: after a validation error the trace is the validation's own; a failed image
  generation call is the last event of the run and the video stage is never entered; a
  failed video call is the last event of the run. Nothing is called a second time.
\<close>

theorem stages_run_strictly_forward:
  assumes "run_all e = (tr, s, r)"
  shows "stage_entries tr \<in> {[Validation], [Validation, ImageGeneration],
                                [Validation, ImageGeneration, VideoGeneration]}
       \<and> (\<forall>pp outp. CallGenerateVideo pp outp \<in> set tr \<longrightarrow>
             (\<exists>files cands. CallGenerateImages files the_scenario \<in> set tr
                \<and> generate_images_and_select_best e files the_scenario = Inr (pp, outp, cands)))
       \<and> (\<forall>tv sv x. validate_inputs e fresh_kernel = (tv, sv, Some x) \<longrightarrow>
             r = Some x \<and> tr = tv \<and> stage_entries tr = [Validation])
       \<and> (\<forall>files scen x. CallGenerateImages files scen \<in> set tr
               \<and> generate_images_and_select_best e files scen = Inl x \<longrightarrow>
             r = Some x \<and> last tr = CallGenerateImages files scen
             \<and> stage_entries tr = [Validation, ImageGeneration])
       \<and> (\<forall>pp outp x. CallGenerateVideo pp outp \<in> set tr
               \<and> generate_video_from_best_image e pp outp = Inl x \<longrightarrow>
             r = Some x \<and> last tr = CallGenerateVideo pp outp)"
proof -
  note a = run_all_stage_entries [OF assms]
  have b: "\<forall>pp outp. CallGenerateVideo pp outp \<in> set tr \<longrightarrow>
             (\<exists>files cands. CallGenerateImages files the_scenario \<in> set tr
                \<and> generate_images_and_select_best e files the_scenario = Inr (pp, outp, cands))"
    using video_call_after_generation [OF assms] by blast
  have c: "\<forall>tv sv x. validate_inputs e fresh_kernel = (tv, sv, Some x) \<longrightarrow>
             r = Some x \<and> tr = tv \<and> stage_entries tr = [Validation]"
    using validation_failure_ends_run [OF assms] validate_inputs_trace(1) by blast
  have d: "\<forall>files scen x. CallGenerateImages files scen \<in> set tr
               \<and> generate_images_and_select_best e files scen = Inl x \<longrightarrow>
             r = Some x \<and> last tr = CallGenerateImages files scen
             \<and> stage_entries tr = [Validation, ImageGeneration]"
    using generation_failure_ends_run [OF assms] by blast
  have f: "\<forall>pp outp x. CallGenerateVideo pp outp \<in> set tr
               \<and> generate_video_from_best_image e pp outp = Inl x \<longrightarrow>
             r = Some x \<and> last tr = CallGenerateVideo pp outp"
    using video_failure_ends_run [OF assms] by blast
  show ?thesis by (intro conjI a b c d f)
qed


theorem stages_run_strictly_forward_witness:
  "stage_entries (fst (run_all demo_env)) = [Validation, ImageGeneration, VideoGeneration]
   \<and> CallGenerateVideo ''out/p'' ''out/p/wide.png'' \<in> set (fst (run_all demo_env))
   \<and> CallGenerateImages [''refs/a.png'', ''refs/notes.txt''] the_scenario
        \<in> set (fst (run_all demo_env))
   \<and> generate_images_and_select_best demo_env [''refs/a.png'', ''refs/notes.txt''] the_scenario
        = Inr (''out/p'', ''out/p/wide.png'', [''out/p/0.png'', ''out/p/1.png''])
   \<and> snd (snd (run_all demo_env)) = None
   \<and> run_all missing_dir_env = validate_inputs missing_dir_env fresh_kernel
   \<and> stage_entries (fst (run_all missing_dir_env)) = [Validation]
   \<and> snd (snd (run_all missing_dir_env))
        = Some (ValueError ''The provided image location is not a valid directory: missing'')
   \<and> CallGenerateImages [''refs/a.png'', ''refs/notes.txt''] the_scenario
        \<in> set (fst (run_all failing_generation_env))
   \<and> generate_images_and_select_best failing_generation_env
          [''refs/a.png'', ''refs/notes.txt''] the_scenario
        = Inl (Exception ''image generation failed'')
   \<and> snd (snd (run_all failing_generation_env)) = Some (Exception ''image generation failed'')
   \<and> last (fst (run_all failing_generation_env))
        = CallGenerateImages [''refs/a.png'', ''refs/notes.txt''] the_scenario
   \<and> stage_entries (fst (run_all failing_generation_env)) = [Validation, ImageGeneration]
   \<and> CallGenerateVideo ''out/p'' ''out/p/wide.png'' \<in> set (fst (run_all failing_video_env))
   \<and> generate_video_from_best_image failing_video_env ''out/p'' ''out/p/wide.png''
        = Inl (Exception ''video generation failed'')
   \<and> snd (snd (run_all failing_video_env)) = Some (Exception ''video generation failed'')
   \<and> last (fst (run_all failing_video_env)) = CallGenerateVideo ''out/p'' ''out/p/wide.png''"
proof -
  note d = stages_run_strictly_forward [OF run_all_demo]
  note m = stages_run_strictly_forward [OF run_all_missing_dir]
  note g = stages_run_strictly_forward [OF run_all_failing_generation]
  note v = stages_run_strictly_forward [OF run_all_failing_video]
  have d1: "generate_images_and_select_best demo_env [''refs/a.png'', ''refs/notes.txt'']
              the_scenario
            = Inr (''out/p'', ''out/p/wide.png'', [''out/p/0.png'', ''out/p/1.png''])"
    by (simp add: demo_env_def)
  have g1: "generate_images_and_select_best failing_generation_env
              [''refs/a.png'', ''refs/notes.txt''] the_scenario
            = Inl (Exception ''image generation failed'')"
    by (simp add: failing_generation_env_def demo_env_def)
  have v1: "generate_video_from_best_image failing_video_env ''out/p'' ''out/p/wide.png''
            = Inl (Exception ''video generation failed'')"
    by (simp add: failing_video_env_def demo_env_def)
  from m validate_missing_dir
  have m2: "stage_entries [IsDir ''missing''] = [Validation]" by blast
  from g g1
  have g2: "stage_entries (fst (run_all failing_generation_env)) = [Validation, ImageGeneration]"
    by (simp add: run_all_failing_generation)
  from v v1
  have v2: "last (fst (run_all failing_video_env)) = CallGenerateVideo ''out/p'' ''out/p/wide.png''"
    by (simp add: run_all_failing_video)
  from d have d2: "stage_entries (fst (run_all demo_env)) \<in> {[Validation], [Validation, ImageGeneration],
                                [Validation, ImageGeneration, VideoGeneration]}"
    by (simp add: run_all_demo)
  from d1 g1 v1 m2 g2 v2 d2 show ?thesis
    by (simp add: run_all_demo run_all_missing_dir run_all_failing_generation
          run_all_failing_video validate_missing_dir)
qed

subsection \<open>The reference images are input only\<close>




subsection \<open>The final display cell reads the video only behind its guard\<close>

text \<open>
  Claim C10. The last cell displays the video only when \<open>video_path\<close> is a non-empty
  string and \<open>os.path.exists\<close> holds of it, and it asks the file system about the path only
  when the path is a non-empty string. When \<open>video_path\<close> is bound and the guard fails
  (\<open>None\<close>, the empty string, or a path that does not exist), the cell raises nothing, ends
  by printing the fallback message and displays no video. The cell changes no variable.
\<close>

theorem final_video_display_guarded:
  assumes "display_final_video e s = (tr, s', r)"
  shows "(\<forall>p w. DisplayVideo p w \<in> set tr \<longrightarrow>
            video_path s = Some (Some p) \<and> p \<noteq> [] \<and> os_path_exists e p)
       \<and> (\<forall>p. Exists p \<in> set tr \<longrightarrow> video_path s = Some (Some p) \<and> p \<noteq> [])
       \<and> (\<forall>v. video_path s = Some v
               \<and> \<not> (\<exists>p. v = Some p \<and> p \<noteq> [] \<and> os_path_exists e p) \<longrightarrow>
            r = None \<and> tr \<noteq> [] \<and> last tr = could_not_display
            \<and> (\<forall>p w. DisplayVideo p w \<notin> set tr))
       \<and> s' = s"
  using assms
  by (auto simp: display_final_video_def could_not_display_def split: option.splits if_splits)

theorem final_video_display_guarded_witness:
  "display_final_video demo_env video_done =
     ([Exists ''out/p/video.mp4'', Print (CHR 0x0A # ''Final Generated Video:''),
       DisplayVideo ''out/p/video.mp4'' 600], video_done, None)
   \<and> video_path video_done = Some (Some ''out/p/video.mp4'')
   \<and> os_path_exists demo_env ''out/p/video.mp4''
   \<and> display_final_video demo_env video_lost =
     ([Exists ''out/p/lost.mp4'', could_not_display], video_lost, None)
   \<and> video_path video_lost = Some (Some ''out/p/lost.mp4'')
   \<and> \<not> os_path_exists demo_env ''out/p/lost.mp4''
   \<and> DisplayVideo ''out/p/lost.mp4'' 600 \<notin> set [Exists ''out/p/lost.mp4'', could_not_display]"
proof -
  have a: "display_final_video demo_env video_done =
     ([Exists ''out/p/video.mp4'', Print (CHR 0x0A # ''Final Generated Video:''),
       DisplayVideo ''out/p/video.mp4'' 600], video_done, None)"
    by (simp add: display_final_video_def video_done_def fresh_kernel_def demo_env_def)
  have b: "display_final_video demo_env video_lost =
     ([Exists ''out/p/lost.mp4'', could_not_display], video_lost, None)"
    by (simp add: display_final_video_def video_lost_def fresh_kernel_def demo_env_def)
  from final_video_display_guarded [OF a]
  have a1: "video_path video_done = Some (Some ''out/p/video.mp4'')
              \<and> os_path_exists demo_env ''out/p/video.mp4''"
    by simp
  have b0: "video_path video_lost = Some (Some ''out/p/lost.mp4'')"
    and b1: "\<not> os_path_exists demo_env ''out/p/lost.mp4''"
    by (simp_all add: video_lost_def fresh_kernel_def demo_env_def)
  from final_video_display_guarded [OF b] b0 b1
  have b2: "\<forall>p w. DisplayVideo p w \<notin> set [Exists ''out/p/lost.mp4'', could_not_display]"
    by blast
  from a b a1 b0 b1 b2 show ?thesis by simp
qed



section \<open>Candidate generation, selection and outpainting\<close>

subsection \<open>The three components and their composition\<close>

lemma those_map_None:
  "those (map f xs) = None \<longleftrightarrow> (\<exists>x\<in>set xs. f x = None)"
  by (induction xs) (auto split: option.splits)

lemma those_map_Some:
  "those (map f xs) = Some ys \<Longrightarrow> x \<in> set xs \<Longrightarrow> \<exists>y. f x = Some y"
  using those_map_None [of f xs] by auto

lemma those_map_length:
  "those (map f xs) = Some ys \<Longrightarrow> length ys = length xs"
  by (induction xs arbitrary: ys) (auto split: option.splits)

lemma candidate_image_generator_Inr:
  assumes "candidate_image_generator p refs d sc n = Inr cands"
  shows "length cands = n" and "map cand_id cands = [0..<n]"
proof -
  from assms obtain imgs where
    t: "those (map (\<lambda>k. synthesize p k refs d sc square) [0..<n]) = Some imgs"
    and c: "cands = map (\<lambda>(k, img). \<lparr>cand_id = k, picture = img\<rparr>) (zip [0..<n] imgs)"
    by (auto simp: candidate_image_generator_def split: option.splits)
  from those_map_length [OF t] have l: "length imgs = n" by simp
  from c l show "length cands = n" by simp
  have "map cand_id cands = map fst (zip [0..<n] imgs)"
    unfolding c by (simp add: case_prod_beta comp_def)
  with l show "map cand_id cands = [0..<n]" by simp
qed

lemma candidate_image_generator_Inl:
  "candidate_image_generator p refs d sc n = Inl err \<longleftrightarrow>
     err = GenerationFailed \<and> (\<exists>k<n. synthesize p k refs d sc square = None)"
  by (auto simp: candidate_image_generator_def those_map_None split: option.splits
        dest: those_map_Some)

lemma best_candidate_selector_Inr:
  assumes "best_candidate_selector p cands refs = Inr i"
  shows "i \<in> cand_id ` set cands" and "judge p cands refs = Picked (int i)"
proof -
  from assms obtain j c where j: "judge p cands refs = Picked j"
    and f: "find (\<lambda>c. int (cand_id c) = j) cands = Some c" and i: "i = cand_id c"
    by (auto simp: best_candidate_selector_def split: selector_reply.splits option.splits)
  from f have "c \<in> set cands" and "int (cand_id c) = j"
    by (auto simp: find_Some_iff)
  with i j show "i \<in> cand_id ` set cands" and "judge p cands refs = Picked (int i)"
    by auto
qed

lemma best_candidate_selector_Inl:
  "best_candidate_selector p cands refs = Inl err \<Longrightarrow> err = SelectionAmbiguous"
  by (auto simp: best_candidate_selector_def split: selector_reply.splits option.splits)

lemma best_candidate_selector_unmapped:
  assumes "\<forall>c\<in>set cands. judge p cands refs \<noteq> Picked (int (cand_id c))"
  shows "best_candidate_selector p cands refs = Inl SelectionAmbiguous"
proof (cases "judge p cands refs")
  case (Unparseable answer)
  then show ?thesis by (simp add: best_candidate_selector_def)
next
  case (Picked j)
  with assms have "find (\<lambda>c. int (cand_id c) = j) cands = None"
    by (auto simp: find_None_iff)
  with Picked show ?thesis by (simp add: best_candidate_selector_def)
qed

lemma find_mem: "find P xs = Some x \<Longrightarrow> x \<in> set xs \<and> P x"
  by (auto simp: find_Some_iff)

lemma generate_select_outpaint_Inr:
  assumes "generate_select_outpaint p refs d sc n = Inr (cands, sel, wide)"
  shows "candidate_image_generator p refs d sc n = Inr cands"
    and "best_candidate_selector p cands refs = Inr (cand_id sel)"
    and "sel \<in> set cands"
    and "outpainting_stage p (picture sel) = Inr wide"
  using assms
  by (auto simp: generate_select_outpaint_def split: sum.splits option.splits dest: find_mem)

lemma generate_select_outpaint_ambiguous:
  assumes "candidate_image_generator p refs d sc n = Inr cands"
    and "\<forall>c\<in>set cands. judge p cands refs \<noteq> Picked (int (cand_id c))"
  shows "generate_select_outpaint p refs d sc n = Inl SelectionAmbiguous"
  using assms(1) best_candidate_selector_unmapped [OF assms(2)]
  by (simp add: generate_select_outpaint_def)

lemma generate_select_outpaint_rejected:
  assumes "candidate_image_generator p refs d sc n = Inr cands"
    and "best_candidate_selector p cands refs = Inr i"
    and "find (\<lambda>c. cand_id c = i) cands = Some sel"
    and "outpaint p (picture sel) widescreen = None"
  shows "generate_select_outpaint p refs d sc n = Inl OutpaintFailed"
  using assms by (simp add: generate_select_outpaint_def outpainting_stage_def)

subsection \<open>Runs with the concrete providers\<close>

lemma run_good:
  "generate_select_outpaint good_providers one_reference ''d'' ''s'' 4 =
     Inr ([\<lparr>cand_id = 0, picture = \<lparr>img_width = 1024, img_height = 1024, img_bytes = ''s''\<rparr>\<rparr>,
           \<lparr>cand_id = 1, picture = \<lparr>img_width = 1024, img_height = 1024, img_bytes = ''s''\<rparr>\<rparr>,
           \<lparr>cand_id = 2, picture = \<lparr>img_width = 1024, img_height = 1024, img_bytes = ''s''\<rparr>\<rparr>,
           \<lparr>cand_id = 3, picture = \<lparr>img_width = 1024, img_height = 1024, img_bytes = ''s''\<rparr>\<rparr>],
          \<lparr>cand_id = 2, picture = \<lparr>img_width = 1024, img_height = 1024, img_bytes = ''s''\<rparr>\<rparr>,
          \<lparr>img_width = 1920, img_height = 1080, img_bytes = ''s''\<rparr>)"
  by code_simp

lemma generator_good:
  "candidate_image_generator good_providers one_reference ''d'' ''s'' 4 =
     Inr [\<lparr>cand_id = 0, picture = \<lparr>img_width = 1024, img_height = 1024, img_bytes = ''s''\<rparr>\<rparr>,
          \<lparr>cand_id = 1, picture = \<lparr>img_width = 1024, img_height = 1024, img_bytes = ''s''\<rparr>\<rparr>,
          \<lparr>cand_id = 2, picture = \<lparr>img_width = 1024, img_height = 1024, img_bytes = ''s''\<rparr>\<rparr>,
          \<lparr>cand_id = 3, picture = \<lparr>img_width = 1024, img_height = 1024, img_bytes = ''s''\<rparr>\<rparr>]"
  by code_simp

lemma generator_short:
  "candidate_image_generator short_providers one_reference ''d'' ''s'' 4 = Inl GenerationFailed"
  by code_simp

lemma run_short:
  "generate_select_outpaint short_providers one_reference ''d'' ''s'' 4 = Inl GenerationFailed"
  by code_simp

lemma run_confused:
  "generate_select_outpaint confused_providers one_reference ''d'' ''s'' 4
     = Inl SelectionAmbiguous"
  by code_simp

lemma run_rejecting:
  "generate_select_outpaint rejecting_providers one_reference ''d'' ''s'' 4 = Inl OutpaintFailed"
  by code_simp

lemma four_candidates:
  "projr (candidate_image_generator good_providers one_reference ''d'' ''s'' 4) =
     [\<lparr>cand_id = 0, picture = \<lparr>img_width = 1024, img_height = 1024, img_bytes = ''s''\<rparr>\<rparr>,
      \<lparr>cand_id = 1, picture = \<lparr>img_width = 1024, img_height = 1024, img_bytes = ''s''\<rparr>\<rparr>,
      \<lparr>cand_id = 2, picture = \<lparr>img_width = 1024, img_height = 1024, img_bytes = ''s''\<rparr>\<rparr>,
      \<lparr>cand_id = 3, picture = \<lparr>img_width = 1024, img_height = 1024, img_bytes = ''s''\<rparr>\<rparr>]"
  by (simp add: generator_good)

lemma generator_confused:
  "candidate_image_generator confused_providers one_reference ''d'' ''s'' 4 =
     candidate_image_generator good_providers one_reference ''d'' ''s'' 4"
  by (simp add: candidate_image_generator_def confused_providers_def)

lemma good_outpaint_honours_ratio: "honours_ratio (outpaint good_providers)"
  by (auto simp: honours_ratio_def has_ratio_def good_providers_def split: if_splits)

lemma rejecting_outpaint_honours_ratio: "honours_ratio (outpaint rejecting_providers)"
  by (simp add: honours_ratio_def rejecting_providers_def)

subsection \<open>Exactly N candidates, or GenerationFailed\<close>

text \<open>
  Claim C3, for the components as the specification describes them. When \<open>n\<close> candidates
  are requested, the Candidate Image Generator either returns exactly \<open>n\<close> candidates,
  numbered \<open>0\<close> to \<open>n - 1\<close>, or fails with \<open>GenerationFailed\<close>, and it fails exactly when
  one of the \<open>n\<close> image requests yields no image. In that case the run as a whole fails
  with \<open>GenerationFailed\<close>: the selector is not reached with a partial set. A run that
  succeeds carries exactly \<open>n\<close> candidates, and the selected one is among them.
\<close>

theorem candidate_generator_all_or_nothing:
  "(\<forall>cands. candidate_image_generator p refs d sc n = Inr cands \<longrightarrow>
       length cands = n \<and> map cand_id cands = [0..<n])
   \<and> (\<forall>err. candidate_image_generator p refs d sc n = Inl err \<longrightarrow>
         err = GenerationFailed \<and> (\<exists>k<n. synthesize p k refs d sc square = None))
   \<and> ((\<exists>k<n. synthesize p k refs d sc square = None) \<longrightarrow>
         candidate_image_generator p refs d sc n = Inl GenerationFailed
         \<and> generate_select_outpaint p refs d sc n = Inl GenerationFailed)
   \<and> (\<forall>cands sel wide. generate_select_outpaint p refs d sc n = Inr (cands, sel, wide) \<longrightarrow>
         length cands = n \<and> sel \<in> set cands)"
proof -
  have a: "\<forall>cands. candidate_image_generator p refs d sc n = Inr cands \<longrightarrow>
       length cands = n \<and> map cand_id cands = [0..<n]"
    using candidate_image_generator_Inr by blast
  have b: "\<forall>err. candidate_image_generator p refs d sc n = Inl err \<longrightarrow>
         err = GenerationFailed \<and> (\<exists>k<n. synthesize p k refs d sc square = None)"
    using candidate_image_generator_Inl by blast
  have c: "(\<exists>k<n. synthesize p k refs d sc square = None) \<longrightarrow>
         candidate_image_generator p refs d sc n = Inl GenerationFailed
         \<and> generate_select_outpaint p refs d sc n = Inl GenerationFailed"
  proof
    assume "\<exists>k<n. synthesize p k refs d sc square = None"
    then have "candidate_image_generator p refs d sc n = Inl GenerationFailed"
      by (simp add: candidate_image_generator_Inl)
    then show "candidate_image_generator p refs d sc n = Inl GenerationFailed
         \<and> generate_select_outpaint p refs d sc n = Inl GenerationFailed"
      by (simp add: generate_select_outpaint_def)
  qed
  have e: "\<forall>cands sel wide. generate_select_outpaint p refs d sc n = Inr (cands, sel, wide) \<longrightarrow>
         length cands = n \<and> sel \<in> set cands"
  proof (intro allI impI)
    fix cands sel wide
    assume h: "generate_select_outpaint p refs d sc n = Inr (cands, sel, wide)"
    from candidate_image_generator_Inr(1) [OF generate_select_outpaint_Inr(1) [OF h]]
      generate_select_outpaint_Inr(3) [OF h]
    show "length cands = n \<and> sel \<in> set cands" by simp
  qed
  show ?thesis by (intro conjI a b c e)
qed

theorem candidate_generator_all_or_nothing_witness:
  "length (projr (candidate_image_generator good_providers one_reference ''d'' ''s'' 4)) = 4
   \<and> (3::nat) < 4
   \<and> synthesize short_providers 3 one_reference ''d'' ''s'' square = None
   \<and> candidate_image_generator short_providers one_reference ''d'' ''s'' 4 = Inl GenerationFailed
   \<and> generate_select_outpaint short_providers one_reference ''d'' ''s'' 4 = Inl GenerationFailed
   \<and> length (fst (projr (generate_select_outpaint good_providers one_reference ''d'' ''s'' 4))) = 4"
proof -
  note g = candidate_generator_all_or_nothing [of good_providers one_reference "''d''" "''s''" 4]
  note s = candidate_generator_all_or_nothing [of short_providers one_reference "''d''" "''s''" 4]
  have k: "synthesize short_providers 3 one_reference ''d'' ''s'' square = None"
    by (simp add: short_providers_def good_providers_def)
  then have "\<exists>k<4. synthesize short_providers k one_reference ''d'' ''s'' square = None"
    by (intro exI [of _ 3]) simp
  with s have f: "candidate_image_generator short_providers one_reference ''d'' ''s'' 4
                    = Inl GenerationFailed
                  \<and> generate_select_outpaint short_providers one_reference ''d'' ''s'' 4
                    = Inl GenerationFailed"
    by blast
  from g generator_good
  have l: "length (projr (candidate_image_generator good_providers one_reference ''d'' ''s'' 4)) = 4"
    by simp
  from g run_good
  have r: "length (fst (projr (generate_select_outpaint good_providers one_reference ''d'' ''s'' 4))) = 4"
    by simp
  from k f l r show ?thesis by simp
qed

subsection \<open>The selected identifier is a candidate's, or SelectionAmbiguous\<close>

text \<open>
  Claim C4, for the components as the specification describes them. An identifier the
  Best-Candidate Selector returns is the identifier of one of the candidates it was given,
  and it is the index the vision-language service answered. The selector fails only with
  \<open>SelectionAmbiguous\<close>, and it does so whenever the service's answer is not the identifier
  of any candidate (unparseable or out of range): no index is substituted. Then the run
  fails with \<open>SelectionAmbiguous\<close>; a run that succeeds promotes a member of the candidate
  set, the one the service picked.
\<close>

theorem selector_returns_member_or_fails:
  "(\<forall>i. best_candidate_selector p cands refs = Inr i \<longrightarrow>
       i \<in> cand_id ` set cands \<and> judge p cands refs = Picked (int i))
   \<and> (\<forall>err. best_candidate_selector p cands refs = Inl err \<longrightarrow> err = SelectionAmbiguous)
   \<and> ((\<forall>c\<in>set cands. judge p cands refs \<noteq> Picked (int (cand_id c))) \<longrightarrow>
         best_candidate_selector p cands refs = Inl SelectionAmbiguous)
   \<and> (candidate_image_generator p refs d sc n = Inr cands
         \<and> (\<forall>c\<in>set cands. judge p cands refs \<noteq> Picked (int (cand_id c))) \<longrightarrow>
         generate_select_outpaint p refs d sc n = Inl SelectionAmbiguous)
   \<and> (\<forall>sel wide. generate_select_outpaint p refs d sc n = Inr (cands, sel, wide) \<longrightarrow>
         sel \<in> set cands \<and> judge p cands refs = Picked (int (cand_id sel)))"
proof -
  have a: "\<forall>i. best_candidate_selector p cands refs = Inr i \<longrightarrow>
       i \<in> cand_id ` set cands \<and> judge p cands refs = Picked (int i)"
    using best_candidate_selector_Inr by blast
  have b: "\<forall>err. best_candidate_selector p cands refs = Inl err \<longrightarrow> err = SelectionAmbiguous"
    using best_candidate_selector_Inl by blast
  have c: "(\<forall>c\<in>set cands. judge p cands refs \<noteq> Picked (int (cand_id c))) \<longrightarrow>
         best_candidate_selector p cands refs = Inl SelectionAmbiguous"
    using best_candidate_selector_unmapped by blast
  have e: "candidate_image_generator p refs d sc n = Inr cands
         \<and> (\<forall>c\<in>set cands. judge p cands refs \<noteq> Picked (int (cand_id c))) \<longrightarrow>
         generate_select_outpaint p refs d sc n = Inl SelectionAmbiguous"
    using generate_select_outpaint_ambiguous by blast
  have f: "\<forall>sel wide. generate_select_outpaint p refs d sc n = Inr (cands, sel, wide) \<longrightarrow>
         sel \<in> set cands \<and> judge p cands refs = Picked (int (cand_id sel))"
  proof (intro allI impI)
    fix sel wide
    assume h: "generate_select_outpaint p refs d sc n = Inr (cands, sel, wide)"
    from generate_select_outpaint_Inr(3) [OF h]
      best_candidate_selector_Inr(2) [OF generate_select_outpaint_Inr(2) [OF h]]
    show "sel \<in> set cands \<and> judge p cands refs = Picked (int (cand_id sel))" by simp
  qed
  show ?thesis by (intro conjI a b c e f)
qed

theorem selector_returns_member_or_fails_witness:
  "best_candidate_selector good_providers
      (projr (candidate_image_generator good_providers one_reference ''d'' ''s'' 4))
      one_reference = Inr 2
   \<and> 2 \<in> cand_id ` set (projr (candidate_image_generator good_providers one_reference ''d'' ''s'' 4))
   \<and> judge confused_providers
        (projr (candidate_image_generator good_providers one_reference ''d'' ''s'' 4))
        one_reference = Picked 7
   \<and> best_candidate_selector confused_providers
        (projr (candidate_image_generator good_providers one_reference ''d'' ''s'' 4))
        one_reference = Inl SelectionAmbiguous
   \<and> generate_select_outpaint confused_providers one_reference ''d'' ''s'' 4
        = Inl SelectionAmbiguous
   \<and> cand_id (fst (snd (projr (generate_select_outpaint good_providers one_reference
                                  ''d'' ''s'' 4)))) = 2"
proof -
  let ?cands = "projr (candidate_image_generator good_providers one_reference ''d'' ''s'' 4)"
  note g = selector_returns_member_or_fails
             [of good_providers ?cands one_reference "''d''" "''s''" 4]
  note c = selector_returns_member_or_fails
             [of confused_providers ?cands one_reference "''d''" "''s''" 4]
  have s: "best_candidate_selector good_providers ?cands one_reference = Inr 2"
    unfolding four_candidates by code_simp
  with g have m: "2 \<in> cand_id ` set ?cands" by blast
  have j: "judge confused_providers ?cands one_reference = Picked 7"
    by (simp add: confused_providers_def)
  have u: "\<forall>c\<in>set ?cands. judge confused_providers ?cands one_reference
             \<noteq> Picked (int (cand_id c))"
    by (simp add: confused_providers_def four_candidates)
  have gc: "candidate_image_generator confused_providers one_reference ''d'' ''s'' 4
              = Inr ?cands"
    by (simp add: generator_confused generator_good)
  from c u gc
  have a: "best_candidate_selector confused_providers ?cands one_reference
             = Inl SelectionAmbiguous
           \<and> generate_select_outpaint confused_providers one_reference ''d'' ''s'' 4
             = Inl SelectionAmbiguous"
    by blast
  have r: "cand_id (fst (snd (projr (generate_select_outpaint good_providers one_reference
                                  ''d'' ''s'' 4)))) = 2"
    by (simp add: run_good)
  from s m j a r show ?thesis by simp
qed

subsection \<open>The outpainted image is 16:9, or OutpaintFailed\<close>

text \<open>
  Claim C5, for the components as the specification describes them, with an image service
  that returns images at the requested ratio (section 6 of the specification). Whatever
  the dimensions of the selected image, an image the Outpainting Stage returns has positive
  height and width to height exactly 16 to 9. When the provider rejects the request the
  stage fails with \<open>OutpaintFailed\<close>, its only error, and so does the run.
\<close>

theorem outpainting_yields_widescreen:
  assumes "honours_ratio (outpaint p)"
  shows "(\<forall>wide. outpainting_stage p selected = Inr wide \<longrightarrow>
            0 < img_height wide \<and> img_width wide * 9 = img_height wide * 16)
       \<and> (outpaint p selected widescreen = None \<longrightarrow>
            outpainting_stage p selected = Inl OutpaintFailed)
       \<and> (\<forall>err. outpainting_stage p selected = Inl err \<longrightarrow> err = OutpaintFailed)
       \<and> (\<forall>cands sel wide. generate_select_outpaint p refs d sc n = Inr (cands, sel, wide) \<longrightarrow>
            0 < img_height wide \<and> img_width wide * 9 = img_height wide * 16)
       \<and> (\<forall>cands i sel. candidate_image_generator p refs d sc n = Inr cands
              \<and> best_candidate_selector p cands refs = Inr i
              \<and> find (\<lambda>c. cand_id c = i) cands = Some sel
              \<and> outpaint p (picture sel) widescreen = None \<longrightarrow>
            generate_select_outpaint p refs d sc n = Inl OutpaintFailed)"
proof -
  have a: "0 < img_height wide \<and> img_width wide * 9 = img_height wide * 16"
    if "outpainting_stage p img = Inr wide" for img wide
    using that assms
    by (auto simp: outpainting_stage_def honours_ratio_def has_ratio_def widescreen_def
             split: option.splits)
  have b: "outpaint p selected widescreen = None \<longrightarrow>
            outpainting_stage p selected = Inl OutpaintFailed"
    by (simp add: outpainting_stage_def)
  have c: "\<forall>err. outpainting_stage p selected = Inl err \<longrightarrow> err = OutpaintFailed"
    by (auto simp: outpainting_stage_def split: option.splits)
  have e: "\<forall>cands sel wide. generate_select_outpaint p refs d sc n = Inr (cands, sel, wide) \<longrightarrow>
            0 < img_height wide \<and> img_width wide * 9 = img_height wide * 16"
    using a generate_select_outpaint_Inr(4) by blast
  have f: "\<forall>cands i sel. candidate_image_generator p refs d sc n = Inr cands
              \<and> best_candidate_selector p cands refs = Inr i
              \<and> find (\<lambda>c. cand_id c = i) cands = Some sel
              \<and> outpaint p (picture sel) widescreen = None \<longrightarrow>
            generate_select_outpaint p refs d sc n = Inl OutpaintFailed"
    using generate_select_outpaint_rejected by blast
  from a [of selected] have a': "\<forall>wide. outpainting_stage p selected = Inr wide \<longrightarrow>
            0 < img_height wide \<and> img_width wide * 9 = img_height wide * 16"
    by blast
  show ?thesis by (intro conjI a' b c e f)
qed

theorem outpainting_yields_widescreen_witness:
  "honours_ratio (outpaint good_providers)
   \<and> outpainting_stage good_providers
        \<lparr>img_width = 1024, img_height = 1024, img_bytes = ''s''\<rparr>
       = Inr \<lparr>img_width = 1920, img_height = 1080, img_bytes = ''s''\<rparr>
   \<and> (1920::nat) * 9 = 1080 * 16
   \<and> honours_ratio (outpaint rejecting_providers)
   \<and> outpaint rejecting_providers \<lparr>img_width = 1024, img_height = 1024, img_bytes = ''s''\<rparr>
        widescreen = None
   \<and> outpainting_stage rejecting_providers
        \<lparr>img_width = 1024, img_height = 1024, img_bytes = ''s''\<rparr> = Inl OutpaintFailed
   \<and> generate_select_outpaint rejecting_providers one_reference ''d'' ''s'' 4
        = Inl OutpaintFailed"
proof -
  let ?img = "\<lparr>img_width = 1024, img_height = 1024, img_bytes = ''s''\<rparr>"
  note g = outpainting_yields_widescreen [OF good_outpaint_honours_ratio, of ?img]
  note r = outpainting_yields_widescreen [OF rejecting_outpaint_honours_ratio, of ?img]
  have o: "outpainting_stage good_providers ?img
             = Inr \<lparr>img_width = 1920, img_height = 1080, img_bytes = ''s''\<rparr>"
    by code_simp
  with g have w: "img_width \<lparr>img_width = 1920, img_height = 1080, img_bytes = ''s''\<rparr> * 9
                  = img_height \<lparr>img_width = 1920, img_height = 1080, img_bytes = ''s''\<rparr> * 16"
    by blast
  have n: "outpaint rejecting_providers ?img widescreen = None"
    by (simp add: rejecting_providers_def)
  with r have f: "outpainting_stage rejecting_providers ?img = Inl OutpaintFailed"
    by blast
  from o w n f good_outpaint_honours_ratio rejecting_outpaint_honours_ratio run_rejecting
  show ?thesis by simp
qed


end
